theory Spec2Isabelle
  imports Main
begin

section \<open>Server agent: data model\<close>

text \<open>
  The server agent of \<^verbatim>\<open>src/agents/server/main.py\<close> keeps a process-wide table
  \<^verbatim>\<open>PROTOCOL_INFOS\<close> from protocol hashes to dictionaries with the keys
  \<^verbatim>\<open>'source'\<close> and \<^verbatim>\<open>'suitability'\<close>, a per-protocol conversation counter and
  a store of synthesized routines. Hashes, queries, sources, documents and
  routine texts are opaque strings.
\<close>

type_synonym phash = string
type_synonym query = string
type_synonym psource = string
type_synonym document = string
type_synonym implementation = string

datatype Suitability = ADEQUATE | INADEQUATE | UNKNOWN

record protocol_info =
  source :: psource
  suitability :: Suitability
  num_conversations :: int

record memory =
  PROTOCOL_INFOS :: "phash \<rightharpoonup> protocol_info"
  routines :: "phash \<rightharpoonup> implementation"

text \<open>Exceptions are values; \<open>Inl e\<close> is an exception that leaves the function.\<close>

datatype error = AlreadyRegistered | NotFound | SynthesisFailed | ExecutionFailed | KeyError

text \<open>The JSON object a handler returns: \<^verbatim>\<open>{'status': ..., 'message': ...}\<close>.\<close>

datatype response = StatusMessage string string

text \<open>
  The collaborators the dispatcher calls through narrow interfaces are
  parameters of the model: the responder, the suitability check, the routine
  writer (which may fail), the document loader, the document fetcher (which
  yields \<open>None\<close> for an invalid source) and the interpreter that runs a stored
  routine (which may throw).
\<close>

record collaborators =
  reply_to_query :: "query \<Rightarrow> phash option \<Rightarrow> response"
  check_protocol_for_tools :: "document \<Rightarrow> query \<Rightarrow> bool"
  write_routine_for_tools :: "string list \<Rightarrow> document \<Rightarrow> error + implementation"
  load_protocol_document :: "phash \<Rightarrow> document"
  download_and_verify_protocol :: "phash \<Rightarrow> psource \<Rightarrow> document option"
  run_implementation :: "implementation \<Rightarrow> query \<Rightarrow> error + string"

text \<open>
  Every call that leaves \<^verbatim>\<open>main.py\<close> (to a collaborator or to a mutating
  operation of the memory module) is logged, in program order.
\<close>

datatype event =
    ReplyToQuery query "phash option"
  | ExecuteRoutine phash query
  | LoadProtocolDocument phash
  | CheckProtocolForTools document query
  | WriteRoutineForTools "string list" document
  | DownloadAndVerifyProtocol phash psource
  | RegisterNewProtocol phash psource document
  | IncrementNumConversations phash
  | AddRoutine phash implementation

type_synonym 'a run = "(error + 'a) \<times> memory \<times> event list"

section \<open>Server agent: the memory module\<close>

text \<open>
  \<^verbatim>\<open>main.py\<close> imports its registry operations from \<^verbatim>\<open>agents.server.memory\<close>
  and the routine runner from \<^verbatim>\<open>utils\<close>. The registry keeps one record per
  protocol hash, the routine cache at most one implementation per hash.
\<close>

definition register_new_protocol :: "memory \<Rightarrow> phash \<Rightarrow> psource \<Rightarrow> document \<Rightarrow> error + memory" where
  \<comment> \<open>Modelled from the spec: \<^verbatim>\<open>register_new_protocol\<close> of the missing module
      \<^verbatim>\<open>agents/server/memory.py\<close>. It fails with \<open>AlreadyRegistered\<close> if a record
      exists; otherwise it creates a record with suitability \<open>UNKNOWN\<close> and
      conversation count 0.\<close>
  "register_new_protocol m h src doc =
     (case PROTOCOL_INFOS m h of
        Some _ \<Rightarrow> Inl AlreadyRegistered
      | None \<Rightarrow> Inr (m\<lparr>PROTOCOL_INFOS := (PROTOCOL_INFOS m)
                   (h \<mapsto> \<lparr>source = src, suitability = UNKNOWN, num_conversations = 0\<rparr>)\<rparr>))"

definition has_implementation :: "memory \<Rightarrow> phash \<Rightarrow> bool" where
  \<comment> \<open>Modelled from the spec: \<^verbatim>\<open>has_implementation\<close> of the missing module
      \<^verbatim>\<open>agents/server/memory.py\<close>; the routine cache's \<open>has\<close>.\<close>
  "has_implementation m h = (case routines m h of Some _ \<Rightarrow> True | None \<Rightarrow> False)"

definition get_num_conversations :: "memory \<Rightarrow> phash \<Rightarrow> error + int" where
  \<comment> \<open>Modelled from the spec: \<^verbatim>\<open>get_num_conversations\<close> of the missing module
      \<^verbatim>\<open>agents/server/memory.py\<close>; the conversation count of the record, \<open>NotFound\<close>
      without a record.\<close>
  "get_num_conversations m h =
     (case PROTOCOL_INFOS m h of
        None \<Rightarrow> Inl NotFound
      | Some info \<Rightarrow> Inr (num_conversations info))"

definition increment_num_conversations :: "memory \<Rightarrow> phash \<Rightarrow> memory" where
  \<comment> \<open>Modelled from the spec: \<^verbatim>\<open>increment_num_conversations\<close> of the missing
      module \<^verbatim>\<open>agents/server/memory.py\<close>; an increment by one, a no-op if the
      record does not exist.\<close>
  "increment_num_conversations m h =
     (case PROTOCOL_INFOS m h of
        None \<Rightarrow> m
      | Some info \<Rightarrow> m\<lparr>PROTOCOL_INFOS := (PROTOCOL_INFOS m)
                   (h \<mapsto> info\<lparr>num_conversations := num_conversations info + 1\<rparr>)\<rparr>)"

definition add_routine :: "memory \<Rightarrow> phash \<Rightarrow> implementation \<Rightarrow> memory" where
  \<comment> \<open>Modelled from the spec: \<^verbatim>\<open>add_routine\<close> of the missing module
      \<^verbatim>\<open>agents/server/memory.py\<close>; the routine cache's \<open>put\<close>, which stores the
      implementation and never overwrites an entry that is present.\<close>
  "add_routine m h impl =
     (case routines m h of
        Some _ \<Rightarrow> m
      | None \<Rightarrow> m\<lparr>routines := (routines m)(h \<mapsto> impl)\<rparr>)"

definition execute_routine :: "collaborators \<Rightarrow> memory \<Rightarrow> phash \<Rightarrow> query \<Rightarrow> error + string" where
  \<comment> \<open>Modelled from the spec: \<^verbatim>\<open>execute_routine\<close> of the missing module
      \<^verbatim>\<open>utils.py\<close>; it loads the implementation stored for the hash and runs it
      against the query, and either step may throw.\<close>
  "execute_routine env m h q =
     (case routines m h of
        None \<Rightarrow> Inl NotFound
      | Some impl \<Rightarrow> run_implementation env impl q)"

section \<open>Server agent: the dispatcher\<close>

definition NUM_CONVERSATIONS_FOR_ROUTINE :: int where
  "NUM_CONVERSATIONS_FOR_ROUTINE = - 1"

definition call_implementation :: "collaborators \<Rightarrow> memory \<Rightarrow> phash \<Rightarrow> query \<Rightarrow> response" where
  \<comment> \<open>The bare \<^verbatim>\<open>except:\<close> catches every exception of \<^verbatim>\<open>execute_routine\<close>.\<close>
  "call_implementation env m h q =
     (case execute_routine env m h q of
        Inr output \<Rightarrow> StatusMessage ''success'' output
      | Inl _ \<Rightarrow> StatusMessage ''error'' ''Failed to execute routine.'')"

text \<open>
  \<^verbatim>\<open>handle_query_suitable\<close> (lines 43-57). Neither the document loader nor the
  routine writer is called inside a \<^verbatim>\<open>try\<close>: an exception of the writer leaves
  the function, after the count has been incremented.
\<close>

definition handle_query_suitable :: "collaborators \<Rightarrow> memory \<Rightarrow> phash \<Rightarrow> query \<Rightarrow> response run" where
  "handle_query_suitable env m h q =
     (let m1 = increment_num_conversations m h in
      if has_implementation m1 h then
        (Inr (call_implementation env m1 h q), m1,
         [IncrementNumConversations h, ExecuteRoutine h q])
      else
        (case get_num_conversations m1 h of
           Inl e \<Rightarrow> (Inl e, m1, [IncrementNumConversations h])
         | Inr n \<Rightarrow>
             if n \<ge> NUM_CONVERSATIONS_FOR_ROUTINE then
               (let protocol_document = load_protocol_document env h in
                case write_routine_for_tools env [] protocol_document of
                  Inl e \<Rightarrow>
                    (Inl e, m1,
                     [IncrementNumConversations h, LoadProtocolDocument h,
                      WriteRoutineForTools [] protocol_document])
                | Inr impl \<Rightarrow>
                    (let m2 = add_routine m1 h impl in
                     (Inr (call_implementation env m2 h q), m2,
                      [IncrementNumConversations h, LoadProtocolDocument h,
                       WriteRoutineForTools [] protocol_document,
                       AddRoutine h impl, ExecuteRoutine h q])))
             else
               (Inr (reply_to_query env q (Some h)), m1,
                [IncrementNumConversations h, ReplyToQuery q (Some h)])))"

text \<open>
  The \<^verbatim>\<open>for protocol_source in protocol_sources\<close> loop of \<^verbatim>\<open>handle_query\<close>,
  with its early return at the first source that yields a document.
\<close>

fun handle_query_sources :: "collaborators \<Rightarrow> memory \<Rightarrow> phash \<Rightarrow> psource list \<Rightarrow> query \<Rightarrow> response run" where
  "handle_query_sources env m h [] q =
     (Inr (StatusMessage ''error'' ''No valid protocol source provided.''), m, [])"
| "handle_query_sources env m h (protocol_source # rest) q =
     (case download_and_verify_protocol env h protocol_source of
        None \<Rightarrow>
          (case handle_query_sources env m h rest q of
             (r, m', tr) \<Rightarrow> (r, m', DownloadAndVerifyProtocol h protocol_source # tr))
      | Some protocol_document \<Rightarrow>
          (case register_new_protocol m h protocol_source protocol_document of
             Inl e \<Rightarrow>
               (Inl e, m,
                [DownloadAndVerifyProtocol h protocol_source,
                 RegisterNewProtocol h protocol_source protocol_document])
           | Inr m1 \<Rightarrow>
               (case handle_query_suitable env m1 h q of
                  (r, m2, tr) \<Rightarrow>
                    (r, m2,
                     DownloadAndVerifyProtocol h protocol_source #
                     RegisterNewProtocol h protocol_source protocol_document # tr))))"

text \<open>
  \<^verbatim>\<open>handle_query\<close>. When the stored suitability is \<^verbatim>\<open>UNKNOWN\<close> the verdict of
  the check is written into the record (lines 68-75); the test of line 77
  reads the record again, that is the verdict just written, or the stored
  value when nothing was written. The trace of the classification is followed
  by the trace of \<^verbatim>\<open>handle_query_suitable\<close>.
\<close>

definition handle_query :: "collaborators \<Rightarrow> memory \<Rightarrow> phash option \<Rightarrow> psource list \<Rightarrow> query \<Rightarrow> response run" where
  "handle_query env m protocol_hash protocol_sources q =
     (case protocol_hash of
        None \<Rightarrow> (Inr (reply_to_query env q None), m, [ReplyToQuery q None])
      | Some h \<Rightarrow>
          if has_implementation m h then
            (Inr (call_implementation env m h q), m, [ExecuteRoutine h q])
          else
            (case PROTOCOL_INFOS m h of
               Some info \<Rightarrow>
                 (case (if suitability info = UNKNOWN then
                          (let protocol_document = load_protocol_document env h;
                               verdict = (if check_protocol_for_tools env protocol_document q
                                          then ADEQUATE else INADEQUATE)
                           in (verdict,
                               m\<lparr>PROTOCOL_INFOS := (PROTOCOL_INFOS m)
                                  (h \<mapsto> info\<lparr>suitability := verdict\<rparr>)\<rparr>,
                               [LoadProtocolDocument h,
                                CheckProtocolForTools protocol_document q]))
                        else (suitability info, m, [])) of
                    (stored, m1, tr1) \<Rightarrow>
                      if stored = ADEQUATE then
                        (case handle_query_suitable env m1 h q of
                           (r, m2, tr2) \<Rightarrow> (r, m2, tr1 @ tr2))
                      else
                        (Inr (StatusMessage ''error'' ''Protocol not suitable.''), m1, tr1))
             | None \<Rightarrow> handle_query_sources env m h protocol_sources q))"

text \<open>Projections of a run: what was returned or raised, the memory left behind, the calls made.\<close>

definition outcome_of :: "'a run \<Rightarrow> error + 'a" where
  "outcome_of r = fst r"

definition memory_after :: "'a run \<Rightarrow> memory" where
  "memory_after r = fst (snd r)"

definition trace_of :: "'a run \<Rightarrow> event list" where
  "trace_of r = snd (snd r)"

text \<open>
  The server handles one request after the other; each request comes with the
  behaviour its collaborators show while it is handled. The memory starts empty.
\<close>

type_synonym request = "collaborators \<times> phash option \<times> psource list \<times> query"

fun serve :: "memory \<Rightarrow> request list \<Rightarrow> memory" where
  "serve m [] = m"
| "serve m ((env, protocol_hash, protocol_sources, q) # rest) =
     serve (memory_after (handle_query env m protocol_hash protocol_sources q)) rest"

definition initial_memory :: memory where
  "initial_memory = \<lparr>PROTOCOL_INFOS = Map.empty, routines = Map.empty\<rparr>"

subsection \<open>Sample collaborators and memories\<close>

definition demo_collaborators :: collaborators where
  "demo_collaborators =
     \<lparr>reply_to_query = (\<lambda>q c. StatusMessage ''success'' ''reply''),
      check_protocol_for_tools = (\<lambda>d q. True),
      write_routine_for_tools = (\<lambda>tools d. Inr ''routine''),
      load_protocol_document = (\<lambda>h. ''document''),
      download_and_verify_protocol = (\<lambda>h s. if s = ''S1'' \<or> s = ''S2'' then Some ''document'' else None),
      run_implementation = (\<lambda>impl q. Inr ''output'')\<rparr>"

definition failing_collaborators :: collaborators where
  "failing_collaborators = demo_collaborators\<lparr>run_implementation := (\<lambda>impl q. Inl ExecutionFailed)\<rparr>"

definition registered_memory :: "Suitability \<Rightarrow> int \<Rightarrow> memory" where
  "registered_memory v n =
     \<lparr>PROTOCOL_INFOS = [''P1'' \<mapsto> \<lparr>source = ''S0'', suitability = v, num_conversations = n\<rparr>],
      routines = Map.empty\<rparr>"

definition cached_memory :: memory where
  "cached_memory = (registered_memory ADEQUATE 1)\<lparr>routines := [''P1'' \<mapsto> ''routine'']\<rparr>"

definition unsynthesizable_collaborators :: collaborators where
  "unsynthesizable_collaborators =
     demo_collaborators\<lparr>write_routine_for_tools := (\<lambda>tools d. Inl SynthesisFailed)\<rparr>"

definition once_registered_memory :: memory where
  "once_registered_memory =
     \<lparr>PROTOCOL_INFOS = [''P1'' \<mapsto> \<lparr>source = ''S1'', suitability = UNKNOWN, num_conversations = 1\<rparr>],
      routines = Map.empty\<rparr>"

section \<open>Gateway: data model and request handler\<close>

text \<open>
  The gateway of \<^verbatim>\<open>src/gateway.py\<close> keeps the process-wide dictionary
  \<^verbatim>\<open>HASH_COUNTER\<close>. A request is the posted JSON object, of which the handler
  reads the key \<^verbatim>\<open>protocolHash\<close>. The two services it talks to and the routine
  programmer are parameters: the list the routine manager returns for
  \<^verbatim>\<open>GET /routines\<close>, the two \<^verbatim>\<open>POST\<close> endpoints, and
  \<^verbatim>\<open>create_and_save_routine\<close>, an ordinary call that either returns (\<open>None\<close>)
  or raises (\<open>Some e\<close>).
\<close>

record request_data =
  protocolHash :: "phash option"
  body :: string

record services =
  routines_body :: "phash list"
  post_model_handler :: "request_data \<Rightarrow> response"
  post_routine_manager_call :: "request_data \<Rightarrow> response"
  create_and_save_routine :: "phash \<Rightarrow> error option"

datatype gateway_event =
    GetRoutines
  | PostModelHandler request_data
  | PostRoutineManagerCall request_data
  | CreateAndSaveRoutine phash

definition TRIGGER_NUM_CALLS :: int where
  "TRIGGER_NUM_CALLS = 2"

text \<open>
  The handler \<^verbatim>\<open>main\<close> of \<^verbatim>\<open>src/gateway.py\<close>. The subscript
  \<^verbatim>\<open>HASH_COUNTER[protocol_hash]\<close> raises \<open>KeyError\<close> for a key that is not in
  the dictionary.
\<close>

definition main :: "services \<Rightarrow> (phash \<rightharpoonup> int) \<Rightarrow> request_data \<Rightarrow>
    (error + response) \<times> (phash \<rightharpoonup> int) \<times> gateway_event list" where
  "main env HASH_COUNTER data =
     (case protocolHash data of
        None \<Rightarrow> (Inr (post_model_handler env data), HASH_COUNTER, [PostModelHandler data])
      | Some protocol_hash \<Rightarrow>
          (let known_hashes = routines_body env in
           if protocol_hash \<in> set known_hashes then
             (Inr (post_routine_manager_call env data), HASH_COUNTER,
              [GetRoutines, PostRoutineManagerCall data])
           else
             (let counter = (if protocol_hash \<noteq> ''chat''
                             then HASH_COUNTER(protocol_hash \<mapsto>
                                    (case HASH_COUNTER protocol_hash of None \<Rightarrow> 0 | Some n \<Rightarrow> n) + 1)
                             else HASH_COUNTER)
              in case counter protocol_hash of
                   None \<Rightarrow> (Inl KeyError, counter, [GetRoutines])
                 | Some n \<Rightarrow>
                     if n \<ge> TRIGGER_NUM_CALLS then
                       (case create_and_save_routine env protocol_hash of
                          Some e \<Rightarrow> (Inl e, counter, [GetRoutines, CreateAndSaveRoutine protocol_hash])
                        | None \<Rightarrow>
                            (Inr (post_model_handler env data), counter,
                             [GetRoutines, CreateAndSaveRoutine protocol_hash,
                              PostModelHandler data]))
                     else
                       (Inr (post_model_handler env data), counter,
                        [GetRoutines, PostModelHandler data]))))"

definition demo_services :: services where
  "demo_services =
     \<lparr>routines_body = [],
      post_model_handler = (\<lambda>data. StatusMessage ''success'' ''model reply''),
      post_routine_manager_call = (\<lambda>data. StatusMessage ''success'' ''routine reply''),
      create_and_save_routine = (\<lambda>h. None)\<rparr>"


definition chat_request :: request_data where
  "chat_request = \<lparr>protocolHash = Some ''chat'', body = ''hello''\<rparr>"


section \<open>Auxiliary facts about runs\<close>

lemma outcome_of_triple [simp]: "outcome_of (r, m, tr) = r"
  by (simp add: outcome_of_def)

lemma memory_after_triple [simp]: "memory_after (r, m, tr) = m"
  by (simp add: memory_after_def)

lemma trace_of_triple [simp]: "trace_of (r, m, tr) = tr"
  by (simp add: trace_of_def)

lemma outcome_of_case [simp]:
  "outcome_of (case x of (r, m', tr) \<Rightarrow> (r, m', g tr)) = outcome_of x"
  by (cases x) simp

lemma memory_after_case [simp]:
  "memory_after (case x of (r, m', tr) \<Rightarrow> (r, m', g tr)) = memory_after x"
  by (cases x) simp

lemma trace_of_case [simp]:
  "trace_of (case x of (r, m', tr) \<Rightarrow> (r, m', g tr)) = g (trace_of x)"
  by (cases x) simp

lemma run_collapse: "(outcome_of x, memory_after x, trace_of x) = x"
  by (cases x) simp

lemmas server_defs = handle_query_suitable_def increment_num_conversations_def
  add_routine_def has_implementation_def get_num_conversations_def

subsection \<open>The suitable path\<close>

lemma suitable_infos:
  "PROTOCOL_INFOS (memory_after (handle_query_suitable env m h q)) =
   PROTOCOL_INFOS (increment_num_conversations m h)"
  by (simp add: server_defs Let_def split: option.splits sum.splits)

lemma suitable_routines_other:
  "h' \<noteq> h \<Longrightarrow> routines (memory_after (handle_query_suitable env m h q)) h' = routines m h'"
  by (simp add: server_defs Let_def split: option.splits sum.splits)

lemma suitable_routines_keep:
  "routines m h' = Some i \<Longrightarrow>
   routines (memory_after (handle_query_suitable env m h q)) h' = Some i"
  by (auto simp add: server_defs Let_def split: option.splits sum.splits)

lemma suitable_trace_no_check:
  "CheckProtocolForTools d x \<notin> set (trace_of (handle_query_suitable env m h q))"
  by (simp add: server_defs Let_def split: option.splits sum.splits)


lemma suitable_trace_execute:
  "ExecuteRoutine h' q' \<in> set (trace_of (handle_query_suitable env m h q)) \<Longrightarrow>
   (\<exists>resp. outcome_of (handle_query_suitable env m h q) = Inr resp) \<and>
   ReplyToQuery a b \<notin> set (trace_of (handle_query_suitable env m h q))"
  by (simp add: server_defs Let_def split: option.splits sum.splits if_splits)

subsection \<open>The loop over the sources\<close>

lemma sources_all_fail:
  "(\<forall>s \<in> set srcs. download_and_verify_protocol env h s = None) \<Longrightarrow>
   handle_query_sources env m h srcs q =
     (Inr (StatusMessage ''error'' ''No valid protocol source provided.''), m,
      map (DownloadAndVerifyProtocol h) srcs)"
  by (induction srcs) simp_all

lemma sources_first_valid:
  "(\<forall>s \<in> set pre. download_and_verify_protocol env h s = None) \<Longrightarrow>
   download_and_verify_protocol env h s = Some doc \<Longrightarrow>
   handle_query_sources env m h (pre @ s # post) q =
     (case register_new_protocol m h s doc of
        Inl e \<Rightarrow> (Inl e, m, map (DownloadAndVerifyProtocol h) pre @
                   [DownloadAndVerifyProtocol h s, RegisterNewProtocol h s doc])
      | Inr m1 \<Rightarrow>
          (case handle_query_suitable env m1 h q of
             (r, m2, tr) \<Rightarrow>
               (r, m2, map (DownloadAndVerifyProtocol h) pre @
                  DownloadAndVerifyProtocol h s # RegisterNewProtocol h s doc # tr)))"
  by (induction pre) (simp_all split: sum.splits prod.splits)

lemma sources_trace_execute:
  "ExecuteRoutine h' q' \<in> set (trace_of (handle_query_sources env m h srcs q)) \<Longrightarrow>
   (\<exists>resp. outcome_of (handle_query_sources env m h srcs q) = Inr resp) \<and>
   ReplyToQuery a b \<notin> set (trace_of (handle_query_sources env m h srcs q))"
proof (induction srcs)
  case Nil
  then show ?case by simp
next
  case (Cons s srcs)
  show ?case
  proof (cases "download_and_verify_protocol env h s")
    case None
    with Cons show ?thesis by simp
  next
    case (Some doc)
    show ?thesis
    proof (cases "register_new_protocol m h s doc")
      case (Inl e)
      with Some Cons.prems show ?thesis by simp
    next
      case (Inr m1)
      with Some Cons.prems suitable_trace_execute [of h' q' env m1 h q a b]
      show ?thesis by simp
    qed
  qed
qed

lemma sources_infos:
  "PROTOCOL_INFOS m h = None \<Longrightarrow>
   PROTOCOL_INFOS (memory_after (handle_query_sources env m h srcs q)) = PROTOCOL_INFOS m \<or>
   (\<exists>s. PROTOCOL_INFOS (memory_after (handle_query_sources env m h srcs q)) =
      (PROTOCOL_INFOS m)(h \<mapsto> \<lparr>source = s, suitability = UNKNOWN, num_conversations = 1\<rparr>))"
proof (induction srcs)
  case Nil
  then show ?case by simp
next
  case (Cons s srcs)
  show ?case
  proof (cases "download_and_verify_protocol env h s")
    case None
    with Cons show ?thesis by simp
  next
    case (Some doc)
    let ?m1 = "m\<lparr>PROTOCOL_INFOS := (PROTOCOL_INFOS m)
                   (h \<mapsto> \<lparr>source = s, suitability = UNKNOWN, num_conversations = 0\<rparr>)\<rparr>"
    have reg: "register_new_protocol m h s doc = Inr ?m1"
      using Cons.prems by (simp add: register_new_protocol_def)
    have "memory_after (handle_query_sources env m h (s # srcs) q) =
          memory_after (handle_query_suitable env ?m1 h q)"
      using Some reg by simp
    then have "PROTOCOL_INFOS (memory_after (handle_query_sources env m h (s # srcs) q)) =
          PROTOCOL_INFOS (increment_num_conversations ?m1 h)"
      by (simp add: suitable_infos)
    then show ?thesis
      by (auto simp add: increment_num_conversations_def)
  qed
qed

lemma register_routines:
  "register_new_protocol m h s doc = Inr m1 \<Longrightarrow> routines m1 = routines m"
  by (auto simp add: register_new_protocol_def split: option.splits)

lemma sources_routines_other:
  "h' \<noteq> h \<Longrightarrow> routines (memory_after (handle_query_sources env m h srcs q)) h' = routines m h'"
proof (induction srcs)
  case Nil
  then show ?case by simp
next
  case (Cons s srcs)
  show ?case
  proof (cases "download_and_verify_protocol env h s")
    case None
    with Cons show ?thesis by simp
  next
    case (Some doc)
    show ?thesis
    proof (cases "register_new_protocol m h s doc")
      case (Inl e)
      with Some show ?thesis by simp
    next
      case (Inr m1)
      with Some Cons.prems register_routines [OF Inr] show ?thesis
        by (simp add: suitable_routines_other)
    qed
  qed
qed

lemma sources_routines_keep:
  "routines m h' = Some i \<Longrightarrow>
   routines (memory_after (handle_query_sources env m h srcs q)) h' = Some i"
proof (induction srcs)
  case Nil
  then show ?case by simp
next
  case (Cons s srcs)
  show ?case
  proof (cases "download_and_verify_protocol env h s")
    case None
    with Cons show ?thesis by simp
  next
    case (Some doc)
    show ?thesis
    proof (cases "register_new_protocol m h s doc")
      case (Inl e)
      with Some Cons.prems show ?thesis by simp
    next
      case (Inr m1)
      with Some Cons.prems register_routines [OF Inr] show ?thesis
        by (simp add: suitable_routines_keep)
    qed
  qed
qed

subsection \<open>The memory after one dispatch\<close>

lemma query_memory_none:
  "memory_after (handle_query env m None srcs q) = m"
  by (simp add: handle_query_def)

lemma query_memory_cached:
  "has_implementation m h \<Longrightarrow> memory_after (handle_query env m (Some h) srcs q) = m"
  by (simp add: handle_query_def)

lemma query_unregistered:
  "\<not> has_implementation m h \<Longrightarrow> PROTOCOL_INFOS m h = None \<Longrightarrow>
   handle_query env m (Some h) srcs q = handle_query_sources env m h srcs q"
  by (simp add: handle_query_def)

lemma query_infos_registered:
  "\<not> has_implementation m h \<Longrightarrow> PROTOCOL_INFOS m h = Some info \<Longrightarrow>
   PROTOCOL_INFOS (memory_after (handle_query env m (Some h) srcs q)) =
     (PROTOCOL_INFOS m)(h \<mapsto>
        (if suitability info = ADEQUATE then info\<lparr>num_conversations := num_conversations info + 1\<rparr>
         else if suitability info = INADEQUATE then info
         else if check_protocol_for_tools env (load_protocol_document env h) q
           then info\<lparr>suitability := ADEQUATE, num_conversations := num_conversations info + 1\<rparr>
           else info\<lparr>suitability := INADEQUATE\<rparr>))"
proof -
  assume "\<not> has_implementation m h" "PROTOCOL_INFOS m h = Some info"
  then show ?thesis
    apply (cases "suitability info")
      apply (simp_all add: handle_query_def Let_def suitable_infos)
      apply (simp_all add: increment_num_conversations_def)
    apply (auto simp add: fun_eq_iff)
    done
qed

lemma query_routines_other:
  "h' \<noteq> h \<Longrightarrow>
   routines (memory_after (handle_query env m (Some h) srcs q)) h' = routines m h'"
  by (simp add: handle_query_def Let_def suitable_routines_other sources_routines_other
      split: option.splits)

lemma query_routines_keep:
  "routines m h' = Some i \<Longrightarrow>
   routines (memory_after (handle_query env m protocol_hash srcs q)) h' = Some i"
  by (cases protocol_hash)
    (simp_all add: handle_query_def Let_def suitable_routines_keep sources_routines_keep
      split: option.splits)

lemma query_infos_other:
  "protocol_hash \<noteq> Some h' \<Longrightarrow>
   PROTOCOL_INFOS (memory_after (handle_query env m protocol_hash srcs q)) h' =
   PROTOCOL_INFOS m h'"
proof (cases protocol_hash)
  case None
  then show ?thesis by (simp add: query_memory_none)
next
  case (Some h)
  assume "protocol_hash \<noteq> Some h'"
  with Some have ne: "h' \<noteq> h" by auto
  show ?thesis
  proof (cases "has_implementation m h")
    case True
    with Some show ?thesis by (simp add: query_memory_cached)
  next
    case False
    show ?thesis
    proof (cases "PROTOCOL_INFOS m h")
      case None
      with sources_infos [OF None, of env srcs q] False Some ne show ?thesis
        by (auto simp add: query_unregistered)
    next
      case (Some info)
      with False \<open>protocol_hash = Some h\<close> ne show ?thesis
        by (simp add: query_infos_registered)
    qed
  qed
qed

lemma query_infos_step:
  "PROTOCOL_INFOS m h' = Some info \<Longrightarrow>
   \<exists>info'. PROTOCOL_INFOS (memory_after (handle_query env m protocol_hash srcs q)) h' = Some info' \<and>
     source info' = source info \<and>
     num_conversations info \<le> num_conversations info' \<and>
     (suitability info' = suitability info \<or>
      suitability info = UNKNOWN \<and> suitability info' \<noteq> UNKNOWN \<and> protocol_hash = Some h')"
proof (cases "protocol_hash = Some h'")
  case False
  assume "PROTOCOL_INFOS m h' = Some info"
  with False show ?thesis by (simp add: query_infos_other)
next
  case True
  assume reg: "PROTOCOL_INFOS m h' = Some info"
  show ?thesis
  proof (cases "has_implementation m h'")
    case True
    with \<open>protocol_hash = Some h'\<close> reg show ?thesis by (simp add: query_memory_cached)
  next
    case False
    with \<open>protocol_hash = Some h'\<close> reg show ?thesis
      by (cases "suitability info") (simp_all add: query_infos_registered)
  qed
qed

lemma query_infos_fresh:
  "PROTOCOL_INFOS m h' = None \<Longrightarrow>
   PROTOCOL_INFOS (memory_after (handle_query env m protocol_hash srcs q)) h' = None \<or>
   (\<exists>s. PROTOCOL_INFOS (memory_after (handle_query env m protocol_hash srcs q)) h' =
      Some \<lparr>source = s, suitability = UNKNOWN, num_conversations = 1\<rparr>)"
proof (cases "protocol_hash = Some h'")
  case False
  assume "PROTOCOL_INFOS m h' = None"
  with False show ?thesis by (simp add: query_infos_other)
next
  case True
  assume reg: "PROTOCOL_INFOS m h' = None"
  show ?thesis
  proof (cases "has_implementation m h'")
    case True
    with \<open>protocol_hash = Some h'\<close> reg show ?thesis by (simp add: query_memory_cached)
  next
    case False
    with \<open>protocol_hash = Some h'\<close> reg sources_infos [OF reg, of env srcs q] show ?thesis
      by (auto simp add: query_unregistered)
  qed
qed

subsection \<open>The memory after a sequence of dispatches\<close>

lemma serve_infos:
  "PROTOCOL_INFOS m h = Some info \<Longrightarrow>
   \<exists>info'. PROTOCOL_INFOS (serve m reqs) h = Some info' \<and>
     source info' = source info \<and>
     num_conversations info \<le> num_conversations info' \<and>
     (suitability info' = suitability info \<or> suitability info = UNKNOWN)"
proof (induction reqs arbitrary: m info)
  case Nil
  then show ?case by simp
next
  case (Cons r reqs)
  obtain env ho srcs q where r: "r = (env, ho, srcs, q)" by (cases r) auto
  from query_infos_step [OF Cons.prems, of env ho srcs q]
  obtain i1 where i1: "PROTOCOL_INFOS (memory_after (handle_query env m ho srcs q)) h = Some i1"
    "source i1 = source info" "num_conversations info \<le> num_conversations i1"
    "suitability i1 = suitability info \<or> suitability info = UNKNOWN" by blast
  from Cons.IH [OF i1(1)] obtain i2 where
    "PROTOCOL_INFOS (serve (memory_after (handle_query env m ho srcs q)) reqs) h = Some i2"
    "source i2 = source i1" "num_conversations i1 \<le> num_conversations i2"
    "suitability i2 = suitability i1 \<or> suitability i1 = UNKNOWN" by blast
  with i1 r show ?case by auto
qed

lemma serve_counts_nonneg:
  "(\<And>h info. PROTOCOL_INFOS m h = Some info \<Longrightarrow> 0 \<le> num_conversations info) \<Longrightarrow>
   PROTOCOL_INFOS (serve m reqs) h = Some info \<Longrightarrow> 0 \<le> num_conversations info"
proof (induction reqs arbitrary: m h info)
  case Nil
  then show ?case by simp
next
  case (Cons r reqs)
  obtain env ho srcs q where r: "r = (env, ho, srcs, q)" by (cases r) auto
  let ?m1 = "memory_after (handle_query env m ho srcs q)"
  have step: "0 \<le> num_conversations i" if "PROTOCOL_INFOS ?m1 k = Some i" for k i
  proof (cases "PROTOCOL_INFOS m k")
    case None
    from query_infos_fresh [OF None, of env ho srcs q] that show ?thesis by auto
  next
    case (Some i0)
    from query_infos_step [OF Some, of env ho srcs q] that Cons.prems(1) [OF Some]
    show ?thesis by auto
  qed
  from Cons.IH [of ?m1 h info] step Cons.prems(2) r show ?case by simp
qed

section \<open>Routine execution failures\<close>

text \<open>
  C5. Whenever running the cached routine fails, \<open>call_implementation\<close> returns
  the status/message pair \<open>error\<close> / \<open>Failed to execute routine.\<close>; a dispatch
  answered from the routine cache then returns that pair as an ordinary
  result, leaves the memory as it was and calls nothing but the routine.
  In every dispatch that executes a routine at all, no exception leaves the
  dispatcher and the responder is not called.
\<close>

theorem call_implementation_failure_is_caught:
  "(execute_routine env m h q = Inl e \<longrightarrow>
      call_implementation env m h q = StatusMessage ''error'' ''Failed to execute routine.'') \<and>
   (execute_routine env m h q = Inl e \<and> has_implementation m h \<longrightarrow>
      handle_query env m (Some h) srcs q =
        (Inr (StatusMessage ''error'' ''Failed to execute routine.''), m, [ExecuteRoutine h q])) \<and>
   (ExecuteRoutine h' q' \<in> set (trace_of (handle_query env m protocol_hash srcs q)) \<longrightarrow>
      (\<exists>resp. outcome_of (handle_query env m protocol_hash srcs q) = Inr resp) \<and>
      ReplyToQuery a b \<notin> set (trace_of (handle_query env m protocol_hash srcs q)))"
proof (intro conjI impI)
  assume "execute_routine env m h q = Inl e"
  then show "call_implementation env m h q = StatusMessage ''error'' ''Failed to execute routine.''"
    by (simp add: call_implementation_def)
next
  assume "execute_routine env m h q = Inl e \<and> has_implementation m h"
  then show "handle_query env m (Some h) srcs q =
      (Inr (StatusMessage ''error'' ''Failed to execute routine.''), m, [ExecuteRoutine h q])"
    by (simp add: call_implementation_def handle_query_def)
next
  assume ex: "ExecuteRoutine h' q' \<in> set (trace_of (handle_query env m protocol_hash srcs q))"
  show "\<exists>resp. outcome_of (handle_query env m protocol_hash srcs q) = Inr resp"
  proof (cases protocol_hash)
    case None
    then show ?thesis by (simp add: handle_query_def)
  next
    case (Some c)
    with ex suitable_trace_execute [of h' q' env _ c q a b]
      sources_trace_execute [of h' q' env m c srcs q a b]
    show ?thesis
      by (auto simp add: handle_query_def Let_def split: option.splits if_splits)
  qed
  show "ReplyToQuery a b \<notin> set (trace_of (handle_query env m protocol_hash srcs q))"
  proof (cases protocol_hash)
    case None
    with ex show ?thesis by (simp add: handle_query_def)
  next
    case (Some c)
    with ex suitable_trace_execute [of h' q' env _ c q a b]
      sources_trace_execute [of h' q' env m c srcs q a b]
    show ?thesis
      by (auto simp add: handle_query_def Let_def split: option.splits if_splits)
  qed
qed

theorem call_implementation_failure_is_caught_witness:
  "execute_routine failing_collaborators cached_memory ''P1'' ''hi'' = Inl ExecutionFailed \<and>
   has_implementation cached_memory ''P1'' \<and>
   call_implementation failing_collaborators cached_memory ''P1'' ''hi'' =
     StatusMessage ''error'' ''Failed to execute routine.'' \<and>
   handle_query failing_collaborators cached_memory (Some ''P1'') [] ''hi'' =
     (Inr (StatusMessage ''error'' ''Failed to execute routine.''), cached_memory,
      [ExecuteRoutine ''P1'' ''hi'']) \<and>
   ReplyToQuery ''hi'' (Some ''P1'') \<notin>
     set (trace_of (handle_query failing_collaborators cached_memory (Some ''P1'') [] ''hi''))"
proof -
  have raised: "execute_routine failing_collaborators cached_memory ''P1'' ''hi'' = Inl ExecutionFailed"
    by (simp add: execute_routine_def failing_collaborators_def cached_memory_def)
  have cached: "has_implementation cached_memory ''P1''"
    by (simp add: has_implementation_def cached_memory_def)
  from call_implementation_failure_is_caught
    [of failing_collaborators cached_memory "''P1''" "''hi''" ExecutionFailed "[]"
        "''P1''" "''hi''" "Some ''P1''" "''hi''" "Some ''P1''"]
    raised cached
  show ?thesis by simp
qed

section \<open>Unregistered protocols\<close>

text \<open>
  C6. A dispatch with a protocol hash that has no cached routine and no
  record, and whose sources all fail to yield a document (in particular an
  empty source list), returns the error \<open>No valid protocol source provided.\<close>;
  the memory is unchanged, so nothing is registered, and the only calls made
  are the fetch attempts, one per source in the order given.
\<close>

theorem no_valid_protocol_source:
  "PROTOCOL_INFOS m h = None \<Longrightarrow> \<not> has_implementation m h \<Longrightarrow>
   (\<forall>s \<in> set srcs. download_and_verify_protocol env h s = None) \<Longrightarrow>
   handle_query env m (Some h) srcs q =
     (Inr (StatusMessage ''error'' ''No valid protocol source provided.''), m,
      map (DownloadAndVerifyProtocol h) srcs)"
  by (simp add: handle_query_def sources_all_fail)

theorem no_valid_protocol_source_witness:
  "PROTOCOL_INFOS initial_memory ''P9'' = None \<and> \<not> has_implementation initial_memory ''P9'' \<and>
   download_and_verify_protocol demo_collaborators ''P9'' ''bad'' = None \<and>
   handle_query demo_collaborators initial_memory (Some ''P9'') [''bad''] ''hi'' =
     (Inr (StatusMessage ''error'' ''No valid protocol source provided.''), initial_memory,
      [DownloadAndVerifyProtocol ''P9'' ''bad'']) \<and>
   handle_query demo_collaborators initial_memory (Some ''P9'') [] ''hi'' =
     (Inr (StatusMessage ''error'' ''No valid protocol source provided.''), initial_memory, [])"
proof -
  have unregistered: "PROTOCOL_INFOS initial_memory ''P9'' = None"
    by (simp add: initial_memory_def)
  have uncached: "\<not> has_implementation initial_memory ''P9''"
    by (simp add: has_implementation_def initial_memory_def)
  have bad: "download_and_verify_protocol demo_collaborators ''P9'' ''bad'' = None"
    by (simp add: demo_collaborators_def)
  from bad have all_bad: "\<forall>s \<in> set [''bad'']. download_and_verify_protocol demo_collaborators ''P9'' s = None"
    by simp
  from no_valid_protocol_source [OF unregistered uncached all_bad, of "''hi''"]
    no_valid_protocol_source [OF unregistered uncached, of "[]" demo_collaborators "''hi''"]
    unregistered uncached bad
  show ?thesis by simp
qed

section \<open>Evaluation on concrete inputs\<close>

lemmas eval_defs = handle_query_def handle_query_suitable_def increment_num_conversations_def
  add_routine_def has_implementation_def get_num_conversations_def register_new_protocol_def
  call_implementation_def execute_routine_def NUM_CONVERSATIONS_FOR_ROUTINE_def
  demo_collaborators_def failing_collaborators_def unsynthesizable_collaborators_def
  registered_memory_def cached_memory_def initial_memory_def Let_def

subsection \<open>What executing a stored routine returns\<close>

lemma call_implementation_stored:
  "routines m h = Some impl \<Longrightarrow>
   call_implementation env m h q =
     (case run_implementation env impl q of
        Inr output \<Rightarrow> StatusMessage ''success'' output
      | Inl x \<Rightarrow> StatusMessage ''error'' ''Failed to execute routine.'')"
  by (simp add: call_implementation_def execute_routine_def)

section \<open>First valid source\<close>



section \<open>The adequate path\<close>

text \<open>
  C1. For a registered protocol: a dispatch with stored suitability
  \<open>ADEQUATE\<close> and no cached routine is exactly the run of
  \<open>handle_query_suitable\<close>, and so is, after the two classification calls, a
  dispatch whose stored suitability is \<open>UNKNOWN\<close> and whose check succeeds.
  That run starts with the increment of the conversation count, after which
  the count is one more than before. Then: if a routine \<open>stored\<close> exists, the
  answer is what running \<open>stored\<close> on the query gives (its output with status
  \<open>success\<close>, or the error pair when it throws); otherwise, if the incremented
  count is at least \<open>NUM_CONVERSATIONS_FOR_ROUTINE\<close>, the document is loaded and
  a routine is written for it, and if the writer returns \<open>impl\<close> then \<open>impl\<close>
  is stored and the answer is what running \<open>impl\<close> on the same query gives (if
  the writer fails, its exception leaves the dispatcher); otherwise the
  responder is called with the query and the protocol hash.
\<close>

theorem adequate_dispatch:
  "PROTOCOL_INFOS m h = Some info \<Longrightarrow>
   (suitability info = ADEQUATE \<and> \<not> has_implementation m h \<longrightarrow>
      handle_query env m (Some h) srcs q = handle_query_suitable env m h q) \<and>
   (suitability info = UNKNOWN \<and> \<not> has_implementation m h \<and>
    check_protocol_for_tools env (load_protocol_document env h) q \<longrightarrow>
      handle_query env m (Some h) srcs q =
        (case handle_query_suitable env
                (m\<lparr>PROTOCOL_INFOS := (PROTOCOL_INFOS m)(h \<mapsto> info\<lparr>suitability := ADEQUATE\<rparr>)\<rparr>) h q of
           (r, m2, tr) \<Rightarrow>
             (r, m2, LoadProtocolDocument h #
                     CheckProtocolForTools (load_protocol_document env h) q # tr))) \<and>
   (\<exists>tr. trace_of (handle_query_suitable env m h q) = IncrementNumConversations h # tr) \<and>
   get_num_conversations (increment_num_conversations m h) h = Inr (num_conversations info + 1) \<and>
   (routines m h = Some stored \<longrightarrow>
      handle_query_suitable env m h q =
        (Inr (case run_implementation env stored q of
                Inr output \<Rightarrow> StatusMessage ''success'' output
              | Inl x \<Rightarrow> StatusMessage ''error'' ''Failed to execute routine.''),
         increment_num_conversations m h,
         [IncrementNumConversations h, ExecuteRoutine h q])) \<and>
   (\<not> has_implementation m h \<and> num_conversations info + 1 \<ge> NUM_CONVERSATIONS_FOR_ROUTINE \<and>
    write_routine_for_tools env [] (load_protocol_document env h) = Inr impl \<longrightarrow>
      routines (add_routine (increment_num_conversations m h) h impl) h = Some impl \<and>
      handle_query_suitable env m h q =
        (Inr (case run_implementation env impl q of
                Inr output \<Rightarrow> StatusMessage ''success'' output
              | Inl x \<Rightarrow> StatusMessage ''error'' ''Failed to execute routine.''),
         add_routine (increment_num_conversations m h) h impl,
         [IncrementNumConversations h, LoadProtocolDocument h,
          WriteRoutineForTools [] (load_protocol_document env h),
          AddRoutine h impl, ExecuteRoutine h q])) \<and>
   (\<not> has_implementation m h \<and> num_conversations info + 1 \<ge> NUM_CONVERSATIONS_FOR_ROUTINE \<and>
    write_routine_for_tools env [] (load_protocol_document env h) = Inl e \<longrightarrow>
      handle_query_suitable env m h q =
        (Inl e, increment_num_conversations m h,
         [IncrementNumConversations h, LoadProtocolDocument h,
          WriteRoutineForTools [] (load_protocol_document env h)])) \<and>
   (\<not> has_implementation m h \<and> num_conversations info + 1 < NUM_CONVERSATIONS_FOR_ROUTINE \<longrightarrow>
      handle_query_suitable env m h q =
        (Inr (reply_to_query env q (Some h)), increment_num_conversations m h,
         [IncrementNumConversations h, ReplyToQuery q (Some h)]))"
proof -
  assume reg: "PROTOCOL_INFOS m h = Some info"
  let ?m1 = "increment_num_conversations m h"
  have kept: "routines ?m1 = routines m"
    using reg by (simp add: increment_num_conversations_def)
  have cached: "has_implementation ?m1 h = has_implementation m h"
    by (simp add: has_implementation_def kept)
  have count: "get_num_conversations ?m1 h = Inr (num_conversations info + 1)"
    using reg by (simp add: get_num_conversations_def increment_num_conversations_def)
  have entry: "suitability info = ADEQUATE \<and> \<not> has_implementation m h \<longrightarrow>
      handle_query env m (Some h) srcs q = handle_query_suitable env m h q"
    using reg by (cases "handle_query_suitable env m h q") (simp add: handle_query_def)
  have classified: "suitability info = UNKNOWN \<and> \<not> has_implementation m h \<and>
      check_protocol_for_tools env (load_protocol_document env h) q \<longrightarrow>
      handle_query env m (Some h) srcs q =
        (case handle_query_suitable env
                (m\<lparr>PROTOCOL_INFOS := (PROTOCOL_INFOS m)(h \<mapsto> info\<lparr>suitability := ADEQUATE\<rparr>)\<rparr>) h q of
           (r, m2, tr) \<Rightarrow>
             (r, m2, LoadProtocolDocument h #
                     CheckProtocolForTools (load_protocol_document env h) q # tr))"
    using reg by (simp add: handle_query_def Let_def)
  have head: "\<exists>tr. trace_of (handle_query_suitable env m h q) = IncrementNumConversations h # tr"
    by (simp add: handle_query_suitable_def Let_def split: sum.splits)
  have existing: "handle_query_suitable env m h q =
        (Inr (case run_implementation env stored q of
                Inr output \<Rightarrow> StatusMessage ''success'' output
              | Inl x \<Rightarrow> StatusMessage ''error'' ''Failed to execute routine.''),
         ?m1, [IncrementNumConversations h, ExecuteRoutine h q])"
    if "routines m h = Some stored"
  proof -
    from that kept have r1: "routines ?m1 h = Some stored" by simp
    then have "has_implementation ?m1 h" by (simp add: has_implementation_def)
    then show ?thesis
      by (simp add: handle_query_suitable_def Let_def call_implementation_stored [OF r1])
  qed
  have stored: "routines (add_routine ?m1 h impl) h = Some impl" if "\<not> has_implementation m h"
    using that cached by (simp add: add_routine_def has_implementation_def split: option.splits)
  have written: "handle_query_suitable env m h q =
        (Inr (case run_implementation env impl q of
                Inr output \<Rightarrow> StatusMessage ''success'' output
              | Inl x \<Rightarrow> StatusMessage ''error'' ''Failed to execute routine.''),
         add_routine ?m1 h impl,
         [IncrementNumConversations h, LoadProtocolDocument h,
          WriteRoutineForTools [] (load_protocol_document env h),
          AddRoutine h impl, ExecuteRoutine h q])"
    if "\<not> has_implementation m h \<and> num_conversations info + 1 \<ge> NUM_CONVERSATIONS_FOR_ROUTINE \<and>
        write_routine_for_tools env [] (load_protocol_document env h) = Inr impl"
    using that
    by (simp add: handle_query_suitable_def Let_def cached count
        call_implementation_stored [OF stored])
  have failed: "handle_query_suitable env m h q =
        (Inl e, ?m1,
         [IncrementNumConversations h, LoadProtocolDocument h,
          WriteRoutineForTools [] (load_protocol_document env h)])"
    if "\<not> has_implementation m h \<and> num_conversations info + 1 \<ge> NUM_CONVERSATIONS_FOR_ROUTINE \<and>
        write_routine_for_tools env [] (load_protocol_document env h) = Inl e"
    using that by (simp add: handle_query_suitable_def Let_def cached count)
  have delegated: "handle_query_suitable env m h q =
        (Inr (reply_to_query env q (Some h)), ?m1,
         [IncrementNumConversations h, ReplyToQuery q (Some h)])"
    if "\<not> has_implementation m h \<and> num_conversations info + 1 < NUM_CONVERSATIONS_FOR_ROUTINE"
    using that by (simp add: handle_query_suitable_def Let_def cached count)
  from entry classified head count existing stored written failed delegated
  show ?thesis by blast
qed

theorem adequate_dispatch_witness:
  "PROTOCOL_INFOS (registered_memory ADEQUATE 0) ''P1'' =
     Some \<lparr>source = ''S0'', suitability = ADEQUATE, num_conversations = 0\<rparr> \<and>
   \<not> has_implementation (registered_memory ADEQUATE 0) ''P1'' \<and>
   (0::int) + 1 \<ge> NUM_CONVERSATIONS_FOR_ROUTINE \<and>
   write_routine_for_tools demo_collaborators []
     (load_protocol_document demo_collaborators ''P1'') = Inr ''routine'' \<and>
   run_implementation demo_collaborators ''routine'' ''hi'' = Inr ''output'' \<and>
   handle_query demo_collaborators (registered_memory ADEQUATE 0) (Some ''P1'') [] ''hi'' =
     (Inr (StatusMessage ''success'' ''output''), cached_memory,
      [IncrementNumConversations ''P1'', LoadProtocolDocument ''P1'',
       WriteRoutineForTools [] ''document'', AddRoutine ''P1'' ''routine'',
       ExecuteRoutine ''P1'' ''hi'']) \<and>
   PROTOCOL_INFOS (registered_memory UNKNOWN 0) ''P1'' =
     Some \<lparr>source = ''S0'', suitability = UNKNOWN, num_conversations = 0\<rparr> \<and>
   \<not> has_implementation (registered_memory UNKNOWN 0) ''P1'' \<and>
   check_protocol_for_tools demo_collaborators (load_protocol_document demo_collaborators ''P1'') ''hi'' \<and>
   handle_query demo_collaborators (registered_memory UNKNOWN 0) (Some ''P1'') [] ''hi'' =
     (Inr (StatusMessage ''success'' ''output''), cached_memory,
      [LoadProtocolDocument ''P1'', CheckProtocolForTools ''document'' ''hi'',
       IncrementNumConversations ''P1'', LoadProtocolDocument ''P1'',
       WriteRoutineForTools [] ''document'', AddRoutine ''P1'' ''routine'',
       ExecuteRoutine ''P1'' ''hi'']) \<and>
   routines cached_memory ''P1'' = Some ''routine'' \<and>
   handle_query_suitable failing_collaborators cached_memory ''P1'' ''hi'' =
     (Inr (StatusMessage ''error'' ''Failed to execute routine.''),
      increment_num_conversations cached_memory ''P1'',
      [IncrementNumConversations ''P1'', ExecuteRoutine ''P1'' ''hi'']) \<and>
   handle_query_suitable demo_collaborators cached_memory ''P1'' ''hi'' =
     (Inr (StatusMessage ''success'' ''output''),
      increment_num_conversations cached_memory ''P1'',
      [IncrementNumConversations ''P1'', ExecuteRoutine ''P1'' ''hi'']) \<and>
   PROTOCOL_INFOS (registered_memory ADEQUATE (- 5)) ''P1'' =
     Some \<lparr>source = ''S0'', suitability = ADEQUATE, num_conversations = - 5\<rparr> \<and>
   (- 5::int) + 1 < NUM_CONVERSATIONS_FOR_ROUTINE \<and>
   handle_query demo_collaborators (registered_memory ADEQUATE (- 5)) (Some ''P1'') [] ''hi'' =
     (Inr (StatusMessage ''success'' ''reply''),
      increment_num_conversations (registered_memory ADEQUATE (- 5)) ''P1'',
      [IncrementNumConversations ''P1'', ReplyToQuery ''hi'' (Some ''P1'')])"
proof -
  have reg: "PROTOCOL_INFOS (registered_memory v n) ''P1'' =
      Some \<lparr>source = ''S0'', suitability = v, num_conversations = n\<rparr>" for v n
    by (simp add: registered_memory_def)
  have uncached: "\<not> has_implementation (registered_memory v n) ''P1''" for v n
    by (simp add: has_implementation_def registered_memory_def)
  have reg': "PROTOCOL_INFOS cached_memory ''P1'' =
      Some \<lparr>source = ''S0'', suitability = ADEQUATE, num_conversations = 1\<rparr>"
    by (simp add: cached_memory_def registered_memory_def)
  have cached: "routines cached_memory ''P1'' = Some ''routine''"
    by (simp add: cached_memory_def)
  have met: "(0::int) + 1 \<ge> NUM_CONVERSATIONS_FOR_ROUTINE"
    and unmet: "(- 5::int) + 1 < NUM_CONVERSATIONS_FOR_ROUTINE"
    by (simp_all add: NUM_CONVERSATIONS_FOR_ROUTINE_def)
  have written: "write_routine_for_tools demo_collaborators []
     (load_protocol_document demo_collaborators ''P1'') = Inr ''routine''"
    and doc: "load_protocol_document demo_collaborators ''P1'' = ''document''"
    and reply: "reply_to_query demo_collaborators ''hi'' (Some ''P1'') = StatusMessage ''success'' ''reply''"
    and ran: "run_implementation demo_collaborators ''routine'' ''hi'' = Inr ''output''"
    and checked: "check_protocol_for_tools demo_collaborators
      (load_protocol_document demo_collaborators ''P1'') ''hi''"
    by (simp_all add: demo_collaborators_def)
  have thrown: "run_implementation failing_collaborators ''routine'' ''hi'' = Inl ExecutionFailed"
    by (simp add: failing_collaborators_def)
  have after: "add_routine (increment_num_conversations (registered_memory ADEQUATE 0) ''P1'')
      ''P1'' ''routine'' = cached_memory"
    by (simp add: add_routine_def increment_num_conversations_def registered_memory_def
        cached_memory_def)
  have classified: "(registered_memory UNKNOWN 0)\<lparr>PROTOCOL_INFOS :=
      (PROTOCOL_INFOS (registered_memory UNKNOWN 0))
        (''P1'' \<mapsto> \<lparr>source = ''S0'', suitability = ADEQUATE, num_conversations = 0\<rparr>)\<rparr> =
      registered_memory ADEQUATE 0"
    by (simp add: registered_memory_def)
  note a = adequate_dispatch [OF reg [of ADEQUATE 0], where env = demo_collaborators
      and srcs = "[]" and q = "''hi''" and impl = "''routine''"]
  note b = adequate_dispatch [OF reg', where env = demo_collaborators
      and q = "''hi''" and stored = "''routine''"]
  note b' = adequate_dispatch [OF reg', where env = failing_collaborators
      and q = "''hi''" and stored = "''routine''"]
  note c = adequate_dispatch [OF reg [of ADEQUATE "- 5"], where env = demo_collaborators
      and srcs = "[]" and q = "''hi''"]
  note d = adequate_dispatch [OF reg [of UNKNOWN 0], where env = demo_collaborators
      and srcs = "[]" and q = "''hi''"]
  note a1 = a [THEN conjunct1]
  note a6 = a [THEN conjunct2, THEN conjunct2, THEN conjunct2, THEN conjunct2, THEN conjunct2,
      THEN conjunct1]
  note b5 = b [THEN conjunct2, THEN conjunct2, THEN conjunct2, THEN conjunct2, THEN conjunct1,
      THEN mp, OF cached]
  note b5' = b' [THEN conjunct2, THEN conjunct2, THEN conjunct2, THEN conjunct2, THEN conjunct1,
      THEN mp, OF cached]
  note c1 = c [THEN conjunct1]
  note c8 = c [THEN conjunct2, THEN conjunct2, THEN conjunct2, THEN conjunct2, THEN conjunct2,
      THEN conjunct2, THEN conjunct2]
  note d2 = d [THEN conjunct2, THEN conjunct1]
  from a6 uncached [of ADEQUATE 0] met written
  have inner: "handle_query_suitable demo_collaborators (registered_memory ADEQUATE 0) ''P1'' ''hi'' =
     (Inr (StatusMessage ''success'' ''output''), cached_memory,
      [IncrementNumConversations ''P1'', LoadProtocolDocument ''P1'',
       WriteRoutineForTools [] ''document'', AddRoutine ''P1'' ''routine'',
       ExecuteRoutine ''P1'' ''hi''])"
    by (simp add: after doc ran)
  from a1 uncached [of ADEQUATE 0]
  have first: "handle_query demo_collaborators (registered_memory ADEQUATE 0) (Some ''P1'') [] ''hi'' =
     (Inr (StatusMessage ''success'' ''output''), cached_memory,
      [IncrementNumConversations ''P1'', LoadProtocolDocument ''P1'',
       WriteRoutineForTools [] ''document'', AddRoutine ''P1'' ''routine'',
       ExecuteRoutine ''P1'' ''hi''])"
    by (simp add: inner)
  from d2 uncached [of UNKNOWN 0] checked
  have fourth: "handle_query demo_collaborators (registered_memory UNKNOWN 0) (Some ''P1'') [] ''hi'' =
     (Inr (StatusMessage ''success'' ''output''), cached_memory,
      [LoadProtocolDocument ''P1'', CheckProtocolForTools ''document'' ''hi'',
       IncrementNumConversations ''P1'', LoadProtocolDocument ''P1'',
       WriteRoutineForTools [] ''document'', AddRoutine ''P1'' ''routine'',
       ExecuteRoutine ''P1'' ''hi''])"
    by (simp add: classified inner doc)
  from b5
  have second: "handle_query_suitable demo_collaborators cached_memory ''P1'' ''hi'' =
     (Inr (StatusMessage ''success'' ''output''),
      increment_num_conversations cached_memory ''P1'',
      [IncrementNumConversations ''P1'', ExecuteRoutine ''P1'' ''hi''])"
    by (simp add: ran)
  from b5'
  have second': "handle_query_suitable failing_collaborators cached_memory ''P1'' ''hi'' =
     (Inr (StatusMessage ''error'' ''Failed to execute routine.''),
      increment_num_conversations cached_memory ''P1'',
      [IncrementNumConversations ''P1'', ExecuteRoutine ''P1'' ''hi''])"
    by (simp add: thrown)
  from c8 uncached [of ADEQUATE "- 5"] unmet
  have inner3: "handle_query_suitable demo_collaborators (registered_memory ADEQUATE (- 5)) ''P1'' ''hi'' =
     (Inr (StatusMessage ''success'' ''reply''),
      increment_num_conversations (registered_memory ADEQUATE (- 5)) ''P1'',
      [IncrementNumConversations ''P1'', ReplyToQuery ''hi'' (Some ''P1'')])"
    by (simp add: reply)
  from c1 uncached [of ADEQUATE "- 5"]
  have third: "handle_query demo_collaborators (registered_memory ADEQUATE (- 5)) (Some ''P1'') [] ''hi'' =
     (Inr (StatusMessage ''success'' ''reply''),
      increment_num_conversations (registered_memory ADEQUATE (- 5)) ''P1'',
      [IncrementNumConversations ''P1'', ReplyToQuery ''hi'' (Some ''P1'')])"
    by (simp add: inner3)
  from reg [of ADEQUATE 0] uncached [of ADEQUATE 0] met written ran first
    reg [of UNKNOWN 0] uncached [of UNKNOWN 0] checked fourth cached second' second
    reg [of ADEQUATE "- 5"] unmet third
  show ?thesis by (intro conjI)
qed

section \<open>Inadequate protocols and the suitability check\<close>

lemma query_inadequate:
  "PROTOCOL_INFOS m h = Some info \<Longrightarrow> suitability info = INADEQUATE \<Longrightarrow>
   \<not> has_implementation m h \<Longrightarrow>
   handle_query env m (Some h) srcs q =
     (Inr (StatusMessage ''error'' ''Protocol not suitable.''), m, [])"
  by (simp add: handle_query_def)

lemma query_inadequate_step:
  assumes "PROTOCOL_INFOS m h = Some info" "suitability info = INADEQUATE"
    "\<not> has_implementation m h"
  shows "\<exists>info'. PROTOCOL_INFOS (memory_after (handle_query env m protocol_hash srcs q)) h = Some info' \<and>
      suitability info' = INADEQUATE \<and>
      \<not> has_implementation (memory_after (handle_query env m protocol_hash srcs q)) h"
proof (cases "protocol_hash = Some h")
  case True
  with assms show ?thesis by (simp add: query_inadequate)
next
  case False
  from query_infos_step [OF assms(1), of env protocol_hash srcs q] assms(2) False
  obtain info' where i: "PROTOCOL_INFOS (memory_after (handle_query env m protocol_hash srcs q)) h = Some info'"
    "suitability info' = INADEQUATE" by auto
  have "routines (memory_after (handle_query env m protocol_hash srcs q)) h = routines m h"
  proof (cases protocol_hash)
    case None
    then show ?thesis by (simp add: query_memory_none)
  next
    case (Some c)
    with False have "h \<noteq> c" by auto
    with Some show ?thesis by (simp add: query_routines_other)
  qed
  with assms(3) i show ?thesis by (simp add: has_implementation_def)
qed

lemma serve_inadequate:
  "PROTOCOL_INFOS m h = Some info \<Longrightarrow> suitability info = INADEQUATE \<Longrightarrow>
   \<not> has_implementation m h \<Longrightarrow>
   \<exists>info'. PROTOCOL_INFOS (serve m reqs) h = Some info' \<and> suitability info' = INADEQUATE \<and>
      \<not> has_implementation (serve m reqs) h"
proof (induction reqs arbitrary: m info)
  case Nil
  then show ?case by simp
next
  case (Cons r reqs)
  obtain env ho srcs q where r: "r = (env, ho, srcs, q)" by (cases r) auto
  from query_inadequate_step [OF Cons.prems, of env ho srcs q]
  obtain i1 where "PROTOCOL_INFOS (memory_after (handle_query env m ho srcs q)) h = Some i1"
    "suitability i1 = INADEQUATE" "\<not> has_implementation (memory_after (handle_query env m ho srcs q)) h"
    by blast
  from Cons.IH [OF this] r show ?case by simp
qed

lemma query_trace_check:
  "CheckProtocolForTools d x \<in> set (trace_of (handle_query env m protocol_hash srcs q)) \<Longrightarrow>
   \<exists>h info. protocol_hash = Some h \<and> \<not> has_implementation m h \<and>
      PROTOCOL_INFOS m h = Some info \<and> suitability info = UNKNOWN"
proof (cases protocol_hash)
  case None
  assume "CheckProtocolForTools d x \<in> set (trace_of (handle_query env m protocol_hash srcs q))"
  with None show ?thesis by (simp add: handle_query_def)
next
  case (Some h)
  assume ev: "CheckProtocolForTools d x \<in> set (trace_of (handle_query env m protocol_hash srcs q))"
  have no_src: "CheckProtocolForTools d x \<notin> set (trace_of (handle_query_sources env m h srcs q))"
  proof (induction srcs)
    case Nil
    then show ?case by simp
  next
    case (Cons s srcs)
    then show ?case
      by (auto simp add: suitable_trace_no_check split: option.splits sum.splits)
  qed
  from ev Some no_src show ?thesis
    by (auto simp add: handle_query_def Let_def suitable_trace_no_check
        split: option.splits if_splits)
qed

text \<open>
  C2. For a protocol whose stored suitability is \<open>INADEQUATE\<close> and that has
  no cached routine, a dispatch of any query with any sources and any
  collaborators returns the error \<open>Protocol not suitable.\<close>, changes nothing
  and calls nothing; the same holds after any sequence of further requests. A
  dispatch calls the suitability check only for a registered protocol whose
  stored suitability is \<open>UNKNOWN\<close>.
\<close>

theorem inadequate_is_terminal:
  "(PROTOCOL_INFOS m h = Some info \<and> suitability info = INADEQUATE \<and> \<not> has_implementation m h \<longrightarrow>
      handle_query env m (Some h) srcs q =
        (Inr (StatusMessage ''error'' ''Protocol not suitable.''), m, []) \<and>
      handle_query env (serve m reqs) (Some h) srcs q =
        (Inr (StatusMessage ''error'' ''Protocol not suitable.''), serve m reqs, [])) \<and>
   (CheckProtocolForTools d x \<in> set (trace_of (handle_query env m protocol_hash srcs q)) \<longrightarrow>
      (\<exists>c info'. protocol_hash = Some c \<and> PROTOCOL_INFOS m c = Some info' \<and>
         suitability info' = UNKNOWN))"
proof (intro conjI impI)
  assume a: "PROTOCOL_INFOS m h = Some info \<and> suitability info = INADEQUATE \<and>
    \<not> has_implementation m h"
  then show "handle_query env m (Some h) srcs q =
      (Inr (StatusMessage ''error'' ''Protocol not suitable.''), m, [])"
    by (simp add: query_inadequate)
  from a serve_inadequate [of m h info reqs]
  obtain info' where "PROTOCOL_INFOS (serve m reqs) h = Some info'"
    "suitability info' = INADEQUATE" "\<not> has_implementation (serve m reqs) h" by blast
  then show "handle_query env (serve m reqs) (Some h) srcs q =
      (Inr (StatusMessage ''error'' ''Protocol not suitable.''), serve m reqs, [])"
    by (rule query_inadequate)
next
  assume "CheckProtocolForTools d x \<in> set (trace_of (handle_query env m protocol_hash srcs q))"
  from query_trace_check [OF this]
  show "\<exists>c info'. protocol_hash = Some c \<and> PROTOCOL_INFOS m c = Some info' \<and>
         suitability info' = UNKNOWN" by blast
qed

theorem inadequate_is_terminal_witness:
  "PROTOCOL_INFOS (registered_memory INADEQUATE 0) ''P1'' =
     Some \<lparr>source = ''S0'', suitability = INADEQUATE, num_conversations = 0\<rparr> \<and>
   \<not> has_implementation (registered_memory INADEQUATE 0) ''P1'' \<and>
   handle_query demo_collaborators (registered_memory INADEQUATE 0) (Some ''P1'') [''S1''] ''hi'' =
     (Inr (StatusMessage ''error'' ''Protocol not suitable.''), registered_memory INADEQUATE 0, []) \<and>
   handle_query demo_collaborators
     (serve (registered_memory INADEQUATE 0)
        [(demo_collaborators, Some ''P1'', [], ''one''), (demo_collaborators, Some ''P2'', [''S1''], ''two'')])
     (Some ''P1'') [''S1''] ''hi'' =
     (Inr (StatusMessage ''error'' ''Protocol not suitable.''),
      serve (registered_memory INADEQUATE 0)
        [(demo_collaborators, Some ''P1'', [], ''one''), (demo_collaborators, Some ''P2'', [''S1''], ''two'')],
      []) \<and>
   CheckProtocolForTools ''document'' ''hi'' \<in>
     set (trace_of (handle_query demo_collaborators (registered_memory UNKNOWN 0) (Some ''P1'') [] ''hi'')) \<and>
   (\<exists>c info'. Some ''P1'' = Some c \<and> PROTOCOL_INFOS (registered_memory UNKNOWN 0) c = Some info' \<and>
      suitability info' = UNKNOWN)"
proof -
  have reg: "PROTOCOL_INFOS (registered_memory INADEQUATE 0) ''P1'' =
     Some \<lparr>source = ''S0'', suitability = INADEQUATE, num_conversations = 0\<rparr>"
    by (simp add: registered_memory_def)
  have uncached: "\<not> has_implementation (registered_memory INADEQUATE 0) ''P1''"
    by (simp add: has_implementation_def registered_memory_def)
  have checked: "CheckProtocolForTools ''document'' ''hi'' \<in>
     set (trace_of (handle_query demo_collaborators (registered_memory UNKNOWN 0) (Some ''P1'') [] ''hi''))"
    by (simp add: eval_defs)
  note a = inadequate_is_terminal
    [of "registered_memory INADEQUATE 0" "''P1''"
        "\<lparr>source = ''S0'', suitability = INADEQUATE, num_conversations = 0\<rparr>"
        demo_collaborators "[''S1'']" "''hi''"
        "[(demo_collaborators, Some ''P1'', [], ''one''), (demo_collaborators, Some ''P2'', [''S1''], ''two'')]"]
  note b = inadequate_is_terminal
    [of "registered_memory UNKNOWN 0" _ _ demo_collaborators "[]" "''hi''" _
        "''document''" "''hi''" "Some ''P1''"]
  from a reg uncached have one: "handle_query demo_collaborators (registered_memory INADEQUATE 0) (Some ''P1'') [''S1''] ''hi'' =
     (Inr (StatusMessage ''error'' ''Protocol not suitable.''), registered_memory INADEQUATE 0, [])"
    and later: "handle_query demo_collaborators
     (serve (registered_memory INADEQUATE 0)
        [(demo_collaborators, Some ''P1'', [], ''one''), (demo_collaborators, Some ''P2'', [''S1''], ''two'')])
     (Some ''P1'') [''S1''] ''hi'' =
     (Inr (StatusMessage ''error'' ''Protocol not suitable.''),
      serve (registered_memory INADEQUATE 0)
        [(demo_collaborators, Some ''P1'', [], ''one''), (demo_collaborators, Some ''P2'', [''S1''], ''two'')],
      [])"
    by simp_all
  from b checked have unknown: "\<exists>c info'. Some ''P1'' = Some c \<and>
      PROTOCOL_INFOS (registered_memory UNKNOWN 0) c = Some info' \<and> suitability info' = UNKNOWN"
    by blast
  from reg uncached one later checked unknown show ?thesis by blast
qed

section \<open>Suitability is written once\<close>

text \<open>
  C7. Registration creates the record with suitability \<open>UNKNOWN\<close>, and a
  record that a dispatch creates has suitability \<open>UNKNOWN\<close>. One dispatch
  either leaves the suitability of a registered protocol as it is, or changes
  it from \<open>UNKNOWN\<close> to a value other than \<open>UNKNOWN\<close>, and only when the
  dispatch is for that protocol. A suitability that is \<open>ADEQUATE\<close> or
  \<open>INADEQUATE\<close> is the same after any sequence of requests.
\<close>

theorem suitability_write_once:
  "(register_new_protocol m h src doc = Inr m' \<longrightarrow>
      (\<exists>info. PROTOCOL_INFOS m' h = Some info \<and> suitability info = UNKNOWN)) \<and>
   (PROTOCOL_INFOS m h = None \<and>
    PROTOCOL_INFOS (memory_after (handle_query env m protocol_hash srcs q)) h = Some new \<longrightarrow>
      suitability new = UNKNOWN) \<and>
   (PROTOCOL_INFOS m h = Some info \<longrightarrow>
      (\<exists>info'. PROTOCOL_INFOS (memory_after (handle_query env m protocol_hash srcs q)) h = Some info' \<and>
         (suitability info' = suitability info \<or>
          suitability info = UNKNOWN \<and> suitability info' \<noteq> UNKNOWN \<and> protocol_hash = Some h))) \<and>
   (PROTOCOL_INFOS m h = Some info \<and> suitability info \<noteq> UNKNOWN \<longrightarrow>
      (\<exists>info'. PROTOCOL_INFOS (serve m reqs) h = Some info' \<and>
         suitability info' = suitability info))"
proof (intro conjI impI)
  assume "register_new_protocol m h src doc = Inr m'"
  then show "\<exists>info. PROTOCOL_INFOS m' h = Some info \<and> suitability info = UNKNOWN"
    by (auto simp add: register_new_protocol_def split: option.splits)
next
  assume "PROTOCOL_INFOS m h = None \<and>
    PROTOCOL_INFOS (memory_after (handle_query env m protocol_hash srcs q)) h = Some new"
  with query_infos_fresh [of m h env protocol_hash srcs q]
  show "suitability new = UNKNOWN" by auto
next
  assume "PROTOCOL_INFOS m h = Some info"
  from query_infos_step [OF this, of env protocol_hash srcs q]
  show "\<exists>info'. PROTOCOL_INFOS (memory_after (handle_query env m protocol_hash srcs q)) h = Some info' \<and>
         (suitability info' = suitability info \<or>
          suitability info = UNKNOWN \<and> suitability info' \<noteq> UNKNOWN \<and> protocol_hash = Some h)"
    by blast
next
  assume "PROTOCOL_INFOS m h = Some info \<and> suitability info \<noteq> UNKNOWN"
  with serve_infos [of m h info reqs]
  show "\<exists>info'. PROTOCOL_INFOS (serve m reqs) h = Some info' \<and>
         suitability info' = suitability info" by auto
qed

theorem suitability_write_once_witness:
  "register_new_protocol initial_memory ''P1'' ''S1'' ''document'' =
     Inr (registered_memory UNKNOWN 0\<lparr>PROTOCOL_INFOS :=
        [''P1'' \<mapsto> \<lparr>source = ''S1'', suitability = UNKNOWN, num_conversations = 0\<rparr>]\<rparr>) \<and>
   PROTOCOL_INFOS (registered_memory ADEQUATE 0) ''P1'' =
     Some \<lparr>source = ''S0'', suitability = ADEQUATE, num_conversations = 0\<rparr> \<and>
   (\<exists>info'. PROTOCOL_INFOS (serve (registered_memory ADEQUATE 0)
        [(demo_collaborators, Some ''P1'', [], ''one''), (demo_collaborators, Some ''P1'', [], ''two'')]) ''P1'' =
      Some info' \<and> suitability info' = ADEQUATE) \<and>
   PROTOCOL_INFOS (registered_memory UNKNOWN 0) ''P1'' =
     Some \<lparr>source = ''S0'', suitability = UNKNOWN, num_conversations = 0\<rparr> \<and>
   (\<exists>info'. PROTOCOL_INFOS (memory_after (handle_query demo_collaborators
        (registered_memory UNKNOWN 0) (Some ''P1'') [] ''hi'')) ''P1'' = Some info' \<and>
      suitability info' = ADEQUATE) \<and>
   PROTOCOL_INFOS initial_memory ''P1'' = None \<and>
   PROTOCOL_INFOS (memory_after (handle_query demo_collaborators initial_memory
        (Some ''P1'') [''S1''] ''hi'')) ''P1'' =
     Some \<lparr>source = ''S1'', suitability = UNKNOWN, num_conversations = 1\<rparr>"
proof -
  have registering: "register_new_protocol initial_memory ''P1'' ''S1'' ''document'' =
     Inr (registered_memory UNKNOWN 0\<lparr>PROTOCOL_INFOS :=
        [''P1'' \<mapsto> \<lparr>source = ''S1'', suitability = UNKNOWN, num_conversations = 0\<rparr>]\<rparr>)"
    by (simp add: register_new_protocol_def initial_memory_def registered_memory_def)
  have reg: "PROTOCOL_INFOS (registered_memory v 0) ''P1'' =
     Some \<lparr>source = ''S0'', suitability = v, num_conversations = 0\<rparr>" for v
    by (simp add: registered_memory_def)
  have unreg: "PROTOCOL_INFOS initial_memory ''P1'' = None"
    by (simp add: initial_memory_def)
  have fresh: "PROTOCOL_INFOS (memory_after (handle_query demo_collaborators initial_memory
        (Some ''P1'') [''S1''] ''hi'')) ''P1'' =
     Some \<lparr>source = ''S1'', suitability = UNKNOWN, num_conversations = 1\<rparr>"
    by (simp add: eval_defs)
  note a = suitability_write_once
    [of initial_memory "''P1''" "''S1''" "''document''"
        "registered_memory UNKNOWN 0\<lparr>PROTOCOL_INFOS :=
           [''P1'' \<mapsto> \<lparr>source = ''S1'', suitability = UNKNOWN, num_conversations = 0\<rparr>]\<rparr>"
        demo_collaborators "Some ''P1''" "[''S1'']" "''hi''"
        "\<lparr>source = ''S1'', suitability = UNKNOWN, num_conversations = 1\<rparr>"]
  note b = suitability_write_once
    [of "registered_memory ADEQUATE 0" "''P1''" _ _ _ demo_collaborators _ _ _ _
        "\<lparr>source = ''S0'', suitability = ADEQUATE, num_conversations = 0\<rparr>"
        "[(demo_collaborators, Some ''P1'', [], ''one''), (demo_collaborators, Some ''P1'', [], ''two'')]"]
  note c = suitability_write_once
    [of "registered_memory UNKNOWN 0" "''P1''" _ _ _ demo_collaborators "Some ''P1''" "[]" "''hi''" _
        "\<lparr>source = ''S0'', suitability = UNKNOWN, num_conversations = 0\<rparr>"]
  from a registering unreg fresh have "suitability
      \<lparr>source = ''S1'', suitability = UNKNOWN, num_conversations = 1\<rparr> = UNKNOWN"
    by blast
  from b reg [of ADEQUATE] have kept: "\<exists>info'. PROTOCOL_INFOS (serve (registered_memory ADEQUATE 0)
        [(demo_collaborators, Some ''P1'', [], ''one''), (demo_collaborators, Some ''P1'', [], ''two'')]) ''P1'' =
      Some info' \<and> suitability info' = ADEQUATE"
    by simp
  have classified: "PROTOCOL_INFOS (memory_after (handle_query demo_collaborators
        (registered_memory UNKNOWN 0) (Some ''P1'') [] ''hi'')) ''P1'' =
      Some \<lparr>source = ''S0'', suitability = ADEQUATE, num_conversations = 1\<rparr>"
    by (simp add: eval_defs)
  from c reg [of UNKNOWN] classified
  have moved: "\<exists>info'. PROTOCOL_INFOS (memory_after (handle_query demo_collaborators
        (registered_memory UNKNOWN 0) (Some ''P1'') [] ''hi'')) ''P1'' = Some info' \<and>
      suitability info' = ADEQUATE"
    by auto
  from registering reg [of ADEQUATE] kept reg [of UNKNOWN] moved unreg fresh
  show ?thesis by blast
qed

section \<open>The conversation count\<close>

lemma suitable_trace_increments:
  "filter (\<lambda>ev. ev = IncrementNumConversations h) (trace_of (handle_query_suitable env m h q)) =
   [IncrementNumConversations h]"
  by (simp add: handle_query_suitable_def Let_def split: sum.splits)

text \<open>
  C4, as stated, fails on the routine-cache path of \<open>handle_query\<close>: with
  suitability \<open>ADEQUATE\<close>, a cached routine and count 1, the dispatch executes
  the routine and the count is still 1.
\<close>

theorem cached_routine_does_not_count:
  "has_implementation cached_memory ''P1'' \<and>
   PROTOCOL_INFOS cached_memory ''P1'' =
     Some \<lparr>source = ''S0'', suitability = ADEQUATE, num_conversations = 1\<rparr> \<and>
   handle_query demo_collaborators cached_memory (Some ''P1'') [] ''hi'' =
     (Inr (StatusMessage ''success'' ''output''), cached_memory, [ExecuteRoutine ''P1'' ''hi'']) \<and>
   get_num_conversations cached_memory ''P1'' = Inr 1 \<and>
   get_num_conversations
     (memory_after (handle_query demo_collaborators cached_memory (Some ''P1'') [] ''hi'')) ''P1'' = Inr 1"
  by (simp add: eval_defs)

text \<open>
  C4, amended. For a registered protocol: a dispatch with stored suitability
  \<open>ADEQUATE\<close> and no cached routine increments the conversation count exactly
  once (the count is one more afterwards and the run has one increment call);
  every run of \<open>handle_query_suitable\<close> leaves the count one more than before;
  a dispatch answered from the routine cache by \<open>handle_query\<close> leaves the
  memory, and so the count, unchanged; and no dispatch and no sequence of
  requests decreases a count.
\<close>

theorem conversation_count_step:
  "PROTOCOL_INFOS m h = Some info \<Longrightarrow>
   (\<not> has_implementation m h \<and> suitability info = ADEQUATE \<longrightarrow>
      get_num_conversations (memory_after (handle_query env m (Some h) srcs q)) h =
        Inr (num_conversations info + 1) \<and>
      filter (\<lambda>ev. ev = IncrementNumConversations h) (trace_of (handle_query env m (Some h) srcs q)) =
        [IncrementNumConversations h]) \<and>
   get_num_conversations (memory_after (handle_query_suitable env m h q)) h =
     Inr (num_conversations info + 1) \<and>
   (has_implementation m h \<longrightarrow>
      handle_query env m (Some h) srcs q =
        (Inr (call_implementation env m h q), m, [ExecuteRoutine h q])) \<and>
   (\<exists>info'. PROTOCOL_INFOS (memory_after (handle_query env' m protocol_hash srcs' q')) h = Some info' \<and>
      num_conversations info \<le> num_conversations info') \<and>
   (\<exists>info'. PROTOCOL_INFOS (serve m reqs) h = Some info' \<and>
      num_conversations info \<le> num_conversations info')"
proof -
  assume reg: "PROTOCOL_INFOS m h = Some info"
  have counted: "get_num_conversations (memory_after (handle_query env m (Some h) srcs q)) h =
        Inr (num_conversations info + 1) \<and>
      filter (\<lambda>ev. ev = IncrementNumConversations h) (trace_of (handle_query env m (Some h) srcs q)) =
        [IncrementNumConversations h]"
    if "\<not> has_implementation m h \<and> suitability info = ADEQUATE"
  proof -
    from that reg have "handle_query env m (Some h) srcs q = handle_query_suitable env m h q"
      by (cases "handle_query_suitable env m h q") (simp add: handle_query_def)
    with reg show ?thesis
      by (simp add: suitable_trace_increments get_num_conversations_def suitable_infos
          increment_num_conversations_def)
  qed
  have inner: "get_num_conversations (memory_after (handle_query_suitable env m h q)) h =
      Inr (num_conversations info + 1)"
    using reg
    by (simp add: get_num_conversations_def suitable_infos increment_num_conversations_def)
  have fast: "handle_query env m (Some h) srcs q =
        (Inr (call_implementation env m h q), m, [ExecuteRoutine h q])"
    if "has_implementation m h"
    using that by (simp add: handle_query_def)
  from query_infos_step [OF reg, of env' protocol_hash srcs' q']
  have step: "\<exists>info'. PROTOCOL_INFOS (memory_after (handle_query env' m protocol_hash srcs' q')) h = Some info' \<and>
      num_conversations info \<le> num_conversations info'" by blast
  from serve_infos [OF reg, of reqs]
  have seq: "\<exists>info'. PROTOCOL_INFOS (serve m reqs) h = Some info' \<and>
      num_conversations info \<le> num_conversations info'" by blast
  from counted inner fast step seq show ?thesis by blast
qed

theorem conversation_count_step_witness:
  "PROTOCOL_INFOS (registered_memory ADEQUATE 0) ''P1'' =
     Some \<lparr>source = ''S0'', suitability = ADEQUATE, num_conversations = 0\<rparr> \<and>
   \<not> has_implementation (registered_memory ADEQUATE 0) ''P1'' \<and>
   get_num_conversations (memory_after
     (handle_query demo_collaborators (registered_memory ADEQUATE 0) (Some ''P1'') [] ''hi'')) ''P1'' = Inr 1 \<and>
   filter (\<lambda>ev. ev = IncrementNumConversations ''P1'')
     (trace_of (handle_query demo_collaborators (registered_memory ADEQUATE 0) (Some ''P1'') [] ''hi'')) =
     [IncrementNumConversations ''P1''] \<and>
   PROTOCOL_INFOS cached_memory ''P1'' =
     Some \<lparr>source = ''S0'', suitability = ADEQUATE, num_conversations = 1\<rparr> \<and>
   has_implementation cached_memory ''P1'' \<and>
   memory_after (handle_query demo_collaborators cached_memory (Some ''P1'') [] ''hi'') = cached_memory \<and>
   (\<exists>info'. PROTOCOL_INFOS (serve cached_memory
        [(demo_collaborators, Some ''P1'', [], ''one''), (demo_collaborators, None, [], ''two'')]) ''P1'' =
      Some info' \<and> 1 \<le> num_conversations info')"
proof -
  have reg: "PROTOCOL_INFOS (registered_memory ADEQUATE 0) ''P1'' =
     Some \<lparr>source = ''S0'', suitability = ADEQUATE, num_conversations = 0\<rparr>"
    by (simp add: registered_memory_def)
  have uncached: "\<not> has_implementation (registered_memory ADEQUATE 0) ''P1''"
    by (simp add: has_implementation_def registered_memory_def)
  have reg': "PROTOCOL_INFOS cached_memory ''P1'' =
      Some \<lparr>source = ''S0'', suitability = ADEQUATE, num_conversations = 1\<rparr>"
    by (simp add: cached_memory_def registered_memory_def)
  have cached: "has_implementation cached_memory ''P1''"
    by (simp add: has_implementation_def cached_memory_def)
  note a = conversation_count_step [OF reg, of demo_collaborators "[]" "''hi''"]
  note b = conversation_count_step [OF reg', of demo_collaborators "[]" "''hi''" _ _ _ _
      "[(demo_collaborators, Some ''P1'', [], ''one''), (demo_collaborators, None, [], ''two'')]"]
  from a uncached have counted: "get_num_conversations (memory_after
     (handle_query demo_collaborators (registered_memory ADEQUATE 0) (Some ''P1'') [] ''hi'')) ''P1'' = Inr 1"
    "filter (\<lambda>ev. ev = IncrementNumConversations ''P1'')
     (trace_of (handle_query demo_collaborators (registered_memory ADEQUATE 0) (Some ''P1'') [] ''hi'')) =
     [IncrementNumConversations ''P1'']"
    by simp_all
  from b cached have same: "memory_after (handle_query demo_collaborators cached_memory (Some ''P1'') [] ''hi'') = cached_memory"
    by simp
  from b have grows: "\<exists>info'. PROTOCOL_INFOS (serve cached_memory
        [(demo_collaborators, Some ''P1'', [], ''one''), (demo_collaborators, None, [], ''two'')]) ''P1'' =
      Some info' \<and> 1 \<le> num_conversations info'"
    by simp
  from reg uncached counted reg' cached same grows show ?thesis by blast
qed

section \<open>The promotion threshold\<close>

lemma suitable_promotes:
  "PROTOCOL_INFOS m h = Some info \<Longrightarrow> 0 \<le> num_conversations info \<Longrightarrow>
   \<not> has_implementation m h \<Longrightarrow>
   handle_query_suitable env m h q =
     (case write_routine_for_tools env [] (load_protocol_document env h) of
        Inl e \<Rightarrow>
          (Inl e, increment_num_conversations m h,
           [IncrementNumConversations h, LoadProtocolDocument h,
            WriteRoutineForTools [] (load_protocol_document env h)])
      | Inr impl \<Rightarrow>
          (Inr (call_implementation env (add_routine (increment_num_conversations m h) h impl) h q),
           add_routine (increment_num_conversations m h) h impl,
           [IncrementNumConversations h, LoadProtocolDocument h,
            WriteRoutineForTools [] (load_protocol_document env h),
            AddRoutine h impl, ExecuteRoutine h q]))"
  by (simp add: server_defs Let_def NUM_CONVERSATIONS_FOR_ROUTINE_def split: sum.splits)

lemma suitable_trace_no_context_reply:
  "(\<And>info. PROTOCOL_INFOS m h = Some info \<Longrightarrow> 0 \<le> num_conversations info) \<Longrightarrow>
   ReplyToQuery a (Some c) \<notin> set (trace_of (handle_query_suitable env m h q))"
  by (cases "PROTOCOL_INFOS m h")
    (simp_all add: server_defs Let_def NUM_CONVERSATIONS_FOR_ROUTINE_def split: sum.splits)

lemma sources_trace_no_context_reply:
  "PROTOCOL_INFOS m h = None \<Longrightarrow>
   ReplyToQuery a (Some c) \<notin> set (trace_of (handle_query_sources env m h srcs q))"
proof (induction srcs)
  case Nil
  then show ?case by simp
next
  case (Cons s srcs)
  show ?case
  proof (cases "download_and_verify_protocol env h s")
    case None
    with Cons show ?thesis by simp
  next
    case (Some doc)
    let ?m1 = "m\<lparr>PROTOCOL_INFOS := (PROTOCOL_INFOS m)
                   (h \<mapsto> \<lparr>source = s, suitability = UNKNOWN, num_conversations = 0\<rparr>)\<rparr>"
    have reg: "register_new_protocol m h s doc = Inr ?m1"
      using Cons.prems by (simp add: register_new_protocol_def)
    have "ReplyToQuery a (Some c) \<notin> set (trace_of (handle_query_suitable env ?m1 h q))"
      by (rule suitable_trace_no_context_reply) simp
    with Some reg show ?thesis by simp
  qed
qed

lemma query_trace_no_context_reply:
  assumes "\<And>h info. PROTOCOL_INFOS m h = Some info \<Longrightarrow> 0 \<le> num_conversations info"
  shows "ReplyToQuery a (Some c) \<notin> set (trace_of (handle_query env m protocol_hash srcs q))"
proof (cases protocol_hash)
  case None
  then show ?thesis by (simp add: handle_query_def)
next
  case (Some h)
  show ?thesis
  proof (cases "has_implementation m h")
    case True
    with Some show ?thesis by (simp add: handle_query_def)
  next
    case False
    show ?thesis
    proof (cases "PROTOCOL_INFOS m h")
      case None
      with False Some sources_trace_no_context_reply [OF None, of a c env srcs q]
      show ?thesis by (simp add: query_unregistered)
    next
      case (Some info)
      have n: "0 \<le> num_conversations info" using assms Some by blast
      have "ReplyToQuery a (Some c) \<notin> set (trace_of (handle_query_suitable env
          (m\<lparr>PROTOCOL_INFOS := (PROTOCOL_INFOS m)(h \<mapsto> info\<lparr>suitability := v\<rparr>)\<rparr>) h q))" for v
        by (rule suitable_trace_no_context_reply) (use n in auto)
      moreover have "ReplyToQuery a (Some c) \<notin> set (trace_of (handle_query_suitable env m h q))"
        by (rule suitable_trace_no_context_reply) (use assms in auto)
      ultimately show ?thesis
        using False Some \<open>protocol_hash = Some h\<close>
        by (simp add: handle_query_def Let_def)
    qed
  qed
qed

lemma suitable_trace_head:
  "IncrementNumConversations h \<in> set (trace_of (handle_query_suitable env m h q))"
  by (simp add: handle_query_suitable_def Let_def split: sum.splits)

lemma suitable_trace_increment_only:
  "IncrementNumConversations h' \<in> set (trace_of (handle_query_suitable env m h q)) \<Longrightarrow> h' = h"
  by (simp add: server_defs Let_def split: option.splits sum.splits if_splits)

lemma suitable_promoted:
  assumes "PROTOCOL_INFOS m h = Some info" "0 \<le> num_conversations info"
    "\<not> has_implementation m h"
  shows "(write_routine_for_tools env [] (load_protocol_document env h) = Inr impl \<longrightarrow>
      outcome_of (handle_query_suitable env m h q) =
        Inr (case run_implementation env impl q of
               Inr output \<Rightarrow> StatusMessage ''success'' output
             | Inl x \<Rightarrow> StatusMessage ''error'' ''Failed to execute routine.'') \<and>
      routines (memory_after (handle_query_suitable env m h q)) h = Some impl \<and>
      trace_of (handle_query_suitable env m h q) =
        [IncrementNumConversations h, LoadProtocolDocument h,
         WriteRoutineForTools [] (load_protocol_document env h),
         AddRoutine h impl, ExecuteRoutine h q]) \<and>
     (write_routine_for_tools env [] (load_protocol_document env h) = Inl e \<longrightarrow>
      outcome_of (handle_query_suitable env m h q) = Inl e \<and>
      trace_of (handle_query_suitable env m h q) =
        [IncrementNumConversations h, LoadProtocolDocument h,
         WriteRoutineForTools [] (load_protocol_document env h)])"
proof -
  let ?m1 = "increment_num_conversations m h"
  have "routines ?m1 = routines m"
    using assms(1) by (simp add: increment_num_conversations_def)
  with assms(3) have stored: "routines (add_routine ?m1 h impl) h = Some impl"
    by (simp add: add_routine_def has_implementation_def split: option.splits)
  show ?thesis
    by (simp add: suitable_promotes [OF assms] call_implementation_stored [OF stored] stored)
qed

lemma sources_promoted:
  "PROTOCOL_INFOS m h = None \<Longrightarrow> \<not> has_implementation m h \<Longrightarrow>
   IncrementNumConversations h' \<in> set (trace_of (handle_query_sources env m h srcs q)) \<Longrightarrow>
   h' = h \<and>
   (write_routine_for_tools env [] (load_protocol_document env h) = Inr impl \<longrightarrow>
      outcome_of (handle_query_sources env m h srcs q) =
        Inr (case run_implementation env impl q of
               Inr output \<Rightarrow> StatusMessage ''success'' output
             | Inl x \<Rightarrow> StatusMessage ''error'' ''Failed to execute routine.'') \<and>
      routines (memory_after (handle_query_sources env m h srcs q)) h = Some impl \<and>
      (\<exists>pre. trace_of (handle_query_sources env m h srcs q) =
        pre @ [IncrementNumConversations h, LoadProtocolDocument h,
         WriteRoutineForTools [] (load_protocol_document env h),
         AddRoutine h impl, ExecuteRoutine h q])) \<and>
   (write_routine_for_tools env [] (load_protocol_document env h) = Inl e \<longrightarrow>
      outcome_of (handle_query_sources env m h srcs q) = Inl e \<and>
      (\<exists>pre. trace_of (handle_query_sources env m h srcs q) =
        pre @ [IncrementNumConversations h, LoadProtocolDocument h,
         WriteRoutineForTools [] (load_protocol_document env h)]))"
proof (induction srcs)
  case Nil
  then show ?case by simp
next
  case (Cons s srcs)
  show ?case
  proof (cases "download_and_verify_protocol env h s")
    case None
    with Cons.prems have "IncrementNumConversations h' \<in>
        set (trace_of (handle_query_sources env m h srcs q))" by simp
    from Cons.IH [OF Cons.prems(1,2) this] None show ?thesis
      by (auto intro: exI [of _ "DownloadAndVerifyProtocol h s # pre" for pre])
  next
    case (Some doc)
    let ?m1 = "m\<lparr>PROTOCOL_INFOS := (PROTOCOL_INFOS m)
                   (h \<mapsto> \<lparr>source = s, suitability = UNKNOWN, num_conversations = 0\<rparr>)\<rparr>"
    have reg: "register_new_protocol m h s doc = Inr ?m1"
      using Cons.prems(1) by (simp add: register_new_protocol_def)
    have "\<not> has_implementation ?m1 h"
      using Cons.prems(2) by (simp add: has_implementation_def)
    from suitable_promoted [of ?m1 h _ env impl q e, OF _ _ this]
    have p: "(write_routine_for_tools env [] (load_protocol_document env h) = Inr impl \<longrightarrow>
      outcome_of (handle_query_suitable env ?m1 h q) =
        Inr (case run_implementation env impl q of
               Inr output \<Rightarrow> StatusMessage ''success'' output
             | Inl x \<Rightarrow> StatusMessage ''error'' ''Failed to execute routine.'') \<and>
      routines (memory_after (handle_query_suitable env ?m1 h q)) h = Some impl \<and>
      trace_of (handle_query_suitable env ?m1 h q) =
        [IncrementNumConversations h, LoadProtocolDocument h,
         WriteRoutineForTools [] (load_protocol_document env h),
         AddRoutine h impl, ExecuteRoutine h q]) \<and>
     (write_routine_for_tools env [] (load_protocol_document env h) = Inl e \<longrightarrow>
      outcome_of (handle_query_suitable env ?m1 h q) = Inl e \<and>
      trace_of (handle_query_suitable env ?m1 h q) =
        [IncrementNumConversations h, LoadProtocolDocument h,
         WriteRoutineForTools [] (load_protocol_document env h)])"
      by simp
    have same: "h' = h"
      using Cons.prems(3) Some reg suitable_trace_increment_only [of h' env ?m1 h q] by simp
    have run: "handle_query_sources env m h (s # srcs) q =
        (outcome_of (handle_query_suitable env ?m1 h q),
         memory_after (handle_query_suitable env ?m1 h q),
         [DownloadAndVerifyProtocol h s, RegisterNewProtocol h s doc] @
         trace_of (handle_query_suitable env ?m1 h q))"
      using Some reg by (cases "handle_query_suitable env ?m1 h q") simp
    from p same show ?thesis
      unfolding run by (auto simp del: append.simps)
  qed
qed

lemma query_promoted:
  assumes nonneg: "\<And>h info. PROTOCOL_INFOS m h = Some info \<Longrightarrow> 0 \<le> num_conversations info"
    and inc: "IncrementNumConversations h \<in> set (trace_of (handle_query env m protocol_hash srcs q))"
  shows "protocol_hash = Some h \<and> \<not> has_implementation m h \<and>
   (write_routine_for_tools env [] (load_protocol_document env h) = Inr impl \<longrightarrow>
      outcome_of (handle_query env m protocol_hash srcs q) =
        Inr (case run_implementation env impl q of
               Inr output \<Rightarrow> StatusMessage ''success'' output
             | Inl x \<Rightarrow> StatusMessage ''error'' ''Failed to execute routine.'') \<and>
      routines (memory_after (handle_query env m protocol_hash srcs q)) h = Some impl \<and>
      (\<exists>pre. trace_of (handle_query env m protocol_hash srcs q) =
        pre @ [IncrementNumConversations h, LoadProtocolDocument h,
         WriteRoutineForTools [] (load_protocol_document env h),
         AddRoutine h impl, ExecuteRoutine h q])) \<and>
   (write_routine_for_tools env [] (load_protocol_document env h) = Inl e \<longrightarrow>
      outcome_of (handle_query env m protocol_hash srcs q) = Inl e \<and>
      (\<exists>pre. trace_of (handle_query env m protocol_hash srcs q) =
        pre @ [IncrementNumConversations h, LoadProtocolDocument h,
         WriteRoutineForTools [] (load_protocol_document env h)]))"
proof (cases protocol_hash)
  case None
  with inc show ?thesis by (simp add: handle_query_def)
next
  case (Some c)
  show ?thesis
  proof (cases "has_implementation m c")
    case True
    with inc Some show ?thesis by (simp add: handle_query_def)
  next
    case uncached: False
    show ?thesis
    proof (cases "PROTOCOL_INFOS m c")
      case None
      from inc Some uncached None
      have "IncrementNumConversations h \<in> set (trace_of (handle_query_sources env m c srcs q))"
        by (simp add: query_unregistered)
      from sources_promoted [OF None uncached this, of impl e] Some uncached None
      show ?thesis by (simp add: query_unregistered)
    next
      case (Some info)
      have n: "0 \<le> num_conversations info" using nonneg Some by blast
      let ?doc = "load_protocol_document env c"
      let ?m1 = "m\<lparr>PROTOCOL_INFOS := (PROTOCOL_INFOS m)(c \<mapsto> info\<lparr>suitability := ADEQUATE\<rparr>)\<rparr>"
      have via: "\<exists>m' tr1. PROTOCOL_INFOS m' c = Some (info\<lparr>suitability := ADEQUATE\<rparr>) \<and>
          \<not> has_implementation m' c \<and>
          handle_query env m (Some c) srcs q =
            (outcome_of (handle_query_suitable env m' c q),
             memory_after (handle_query_suitable env m' c q),
             tr1 @ trace_of (handle_query_suitable env m' c q))"
      proof (cases "suitability info")
        case ADEQUATE
        then have "info\<lparr>suitability := ADEQUATE\<rparr> = info" by simp
        with ADEQUATE Some uncached show ?thesis
          by (intro exI [of _ m] exI [of _ "[]"])
            (cases "handle_query_suitable env m c q", simp add: handle_query_def)
      next
        case INADEQUATE
        with inc Some uncached \<open>protocol_hash = Some c\<close> show ?thesis
          by (simp add: handle_query_def)
      next
        case UNKNOWN
        show ?thesis
        proof (cases "check_protocol_for_tools env ?doc q")
          case True
          have "\<not> has_implementation ?m1 c"
            using uncached by (simp add: has_implementation_def)
          with UNKNOWN True Some uncached show ?thesis
            by (intro exI [of _ ?m1]
                exI [of _ "[LoadProtocolDocument c, CheckProtocolForTools ?doc q]"])
              (cases "handle_query_suitable env ?m1 c q", simp add: handle_query_def Let_def)
        next
          case False
          with UNKNOWN inc Some uncached \<open>protocol_hash = Some c\<close> show ?thesis
            by (simp add: handle_query_def Let_def)
        qed
      qed
      then obtain m' tr1 where reg': "PROTOCOL_INFOS m' c = Some (info\<lparr>suitability := ADEQUATE\<rparr>)"
        and unc': "\<not> has_implementation m' c"
        and run: "handle_query env m (Some c) srcs q =
            (outcome_of (handle_query_suitable env m' c q),
             memory_after (handle_query_suitable env m' c q),
             tr1 @ trace_of (handle_query_suitable env m' c q))"
        by blast
      have n': "0 \<le> num_conversations (info\<lparr>suitability := ADEQUATE\<rparr>)" using n by simp
      note p = suitable_promoted [OF reg' n' unc', of env impl q e]
      have tr1_quiet: "IncrementNumConversations h \<notin> set tr1 \<or> h = c"
      proof (cases "suitability info")
        case ADEQUATE
        then show ?thesis
          using inc \<open>protocol_hash = Some c\<close> Some uncached
            suitable_trace_increment_only [of h env m c q]
          by (cases "handle_query_suitable env m c q") (simp add: handle_query_def)
      next
        case INADEQUATE
        with inc Some uncached \<open>protocol_hash = Some c\<close> show ?thesis
          by (simp add: handle_query_def)
      next
        case UNKNOWN
        then show ?thesis
          using inc \<open>protocol_hash = Some c\<close> Some uncached
            suitable_trace_increment_only [of h env ?m1 c q]
          by (cases "handle_query_suitable env ?m1 c q")
            (auto simp add: handle_query_def Let_def split: if_splits)
      qed
      have same: "h = c"
      proof (rule ccontr)
        assume "h \<noteq> c"
        with tr1_quiet have "IncrementNumConversations h \<notin> set tr1" by simp
        moreover from inc \<open>protocol_hash = Some c\<close> run
        have "IncrementNumConversations h \<in> set tr1 \<or>
            IncrementNumConversations h \<in> set (trace_of (handle_query_suitable env m' c q))"
          by simp
        ultimately show False
          using suitable_trace_increment_only [of h env m' c q] \<open>h \<noteq> c\<close> by blast
      qed
      have o: "outcome_of (handle_query env m protocol_hash srcs q) =
          outcome_of (handle_query_suitable env m' c q)"
        and a: "memory_after (handle_query env m protocol_hash srcs q) =
          memory_after (handle_query_suitable env m' c q)"
        and t: "trace_of (handle_query env m protocol_hash srcs q) =
          tr1 @ trace_of (handle_query_suitable env m' c q)"
        using run \<open>protocol_hash = Some c\<close> by simp_all
      from p same uncached \<open>protocol_hash = Some c\<close> show ?thesis
        unfolding o a t by auto
    qed
  qed
qed

lemma initial_counts: "PROTOCOL_INFOS initial_memory h = Some info \<Longrightarrow> 0 \<le> num_conversations info"
  by (simp add: initial_memory_def)

text \<open>
  C10. The threshold \<open>NUM_CONVERSATIONS_FOR_ROUTINE\<close> is \<open>-1\<close>, and in every
  memory the server reaches from the empty one no conversation count is
  negative. For a dispatch on such a memory: a protocol without record and
  without cached routine whose sources \<open>pre @ s # post\<close> yield a first
  document at \<open>s\<close> (the first query for it), and a registered protocol
  without cached routine whose suitability is \<open>ADEQUATE\<close> or is \<open>UNKNOWN\<close>
  and checked adequate, are handled on the adequate path (the count is
  incremented). Every dispatch that increments the count of \<open>h\<close> is a
  dispatch for \<open>h\<close> without cached routine, and it ends with the loading of
  the document and the call of the routine writer; if the writer returns
  \<open>impl\<close>, then \<open>impl\<close> is stored for \<open>h\<close> and the answer of that very
  dispatch is what running \<open>impl\<close> on its query gives; if the writer fails,
  its exception is the outcome. No dispatch calls the responder with a
  protocol hash as context.
\<close>

theorem promotion_on_first_query:
  "NUM_CONVERSATIONS_FOR_ROUTINE = - 1 \<and>
   (PROTOCOL_INFOS (serve initial_memory reqs) h = Some info \<longrightarrow> 0 \<le> num_conversations info) \<and>
   (PROTOCOL_INFOS (serve initial_memory reqs) h = None \<and>
    \<not> has_implementation (serve initial_memory reqs) h \<and>
    (\<forall>x \<in> set pre. download_and_verify_protocol env h x = None) \<and>
    download_and_verify_protocol env h s = Some doc \<longrightarrow>
      IncrementNumConversations h \<in>
        set (trace_of (handle_query env (serve initial_memory reqs) (Some h) (pre @ s # post) q))) \<and>
   (PROTOCOL_INFOS (serve initial_memory reqs) h = Some info \<and>
    \<not> has_implementation (serve initial_memory reqs) h \<and>
    (suitability info = ADEQUATE \<or>
     suitability info = UNKNOWN \<and> check_protocol_for_tools env (load_protocol_document env h) q) \<longrightarrow>
      IncrementNumConversations h \<in>
        set (trace_of (handle_query env (serve initial_memory reqs) (Some h) srcs q))) \<and>
   (IncrementNumConversations h \<in>
      set (trace_of (handle_query env (serve initial_memory reqs) protocol_hash srcs q)) \<longrightarrow>
      protocol_hash = Some h \<and> \<not> has_implementation (serve initial_memory reqs) h \<and>
      (write_routine_for_tools env [] (load_protocol_document env h) = Inr impl \<longrightarrow>
         outcome_of (handle_query env (serve initial_memory reqs) protocol_hash srcs q) =
           Inr (case run_implementation env impl q of
                  Inr output \<Rightarrow> StatusMessage ''success'' output
                | Inl x \<Rightarrow> StatusMessage ''error'' ''Failed to execute routine.'') \<and>
         routines (memory_after (handle_query env (serve initial_memory reqs) protocol_hash srcs q)) h =
           Some impl \<and>
         (\<exists>before. trace_of (handle_query env (serve initial_memory reqs) protocol_hash srcs q) =
            before @ [IncrementNumConversations h, LoadProtocolDocument h,
              WriteRoutineForTools [] (load_protocol_document env h),
              AddRoutine h impl, ExecuteRoutine h q])) \<and>
      (write_routine_for_tools env [] (load_protocol_document env h) = Inl e \<longrightarrow>
         outcome_of (handle_query env (serve initial_memory reqs) protocol_hash srcs q) = Inl e \<and>
         (\<exists>before. trace_of (handle_query env (serve initial_memory reqs) protocol_hash srcs q) =
            before @ [IncrementNumConversations h, LoadProtocolDocument h,
              WriteRoutineForTools [] (load_protocol_document env h)]))) \<and>
   ReplyToQuery a (Some c) \<notin>
     set (trace_of (handle_query env (serve initial_memory reqs) protocol_hash srcs q))"
proof -
  let ?m = "serve initial_memory reqs"
  have nonneg: "0 \<le> num_conversations i" if "PROTOCOL_INFOS ?m k = Some i" for k i
    using that by (rule serve_counts_nonneg [rotated]) (rule initial_counts)
  have c1: "NUM_CONVERSATIONS_FOR_ROUTINE = - 1"
    by (simp add: NUM_CONVERSATIONS_FOR_ROUTINE_def)
  have c2: "PROTOCOL_INFOS ?m h = Some info \<longrightarrow> 0 \<le> num_conversations info"
    using nonneg by blast
  have c3: "PROTOCOL_INFOS ?m h = None \<and> \<not> has_implementation ?m h \<and>
      (\<forall>x \<in> set pre. download_and_verify_protocol env h x = None) \<and>
      download_and_verify_protocol env h s = Some doc \<longrightarrow>
      IncrementNumConversations h \<in>
        set (trace_of (handle_query env ?m (Some h) (pre @ s # post) q))"
  proof
    assume a: "PROTOCOL_INFOS ?m h = None \<and> \<not> has_implementation ?m h \<and>
      (\<forall>x \<in> set pre. download_and_verify_protocol env h x = None) \<and>
      download_and_verify_protocol env h s = Some doc"
    then have unreg: "PROTOCOL_INFOS ?m h = None" and unc: "\<not> has_implementation ?m h"
      and bad: "\<forall>x \<in> set pre. download_and_verify_protocol env h x = None"
      and ok: "download_and_verify_protocol env h s = Some doc" by blast+
    have "register_new_protocol ?m h s doc = Inr (?m\<lparr>PROTOCOL_INFOS := (PROTOCOL_INFOS ?m)
        (h \<mapsto> \<lparr>source = s, suitability = UNKNOWN, num_conversations = 0\<rparr>)\<rparr>)"
      using unreg by (simp add: register_new_protocol_def)
    with unreg unc sources_first_valid [OF bad ok, of ?m post q]
    show "IncrementNumConversations h \<in>
        set (trace_of (handle_query env ?m (Some h) (pre @ s # post) q))"
      by (simp add: query_unregistered suitable_trace_head)
  qed
  have c4: "PROTOCOL_INFOS ?m h = Some info \<and> \<not> has_implementation ?m h \<and>
      (suitability info = ADEQUATE \<or>
       suitability info = UNKNOWN \<and> check_protocol_for_tools env (load_protocol_document env h) q) \<longrightarrow>
      IncrementNumConversations h \<in> set (trace_of (handle_query env ?m (Some h) srcs q))"
    by (auto simp add: handle_query_def Let_def suitable_trace_head)
  have c5: "IncrementNumConversations h \<in>
      set (trace_of (handle_query env ?m protocol_hash srcs q)) \<longrightarrow>
      protocol_hash = Some h \<and> \<not> has_implementation ?m h \<and>
      (write_routine_for_tools env [] (load_protocol_document env h) = Inr impl \<longrightarrow>
         outcome_of (handle_query env ?m protocol_hash srcs q) =
           Inr (case run_implementation env impl q of
                  Inr output \<Rightarrow> StatusMessage ''success'' output
                | Inl x \<Rightarrow> StatusMessage ''error'' ''Failed to execute routine.'') \<and>
         routines (memory_after (handle_query env ?m protocol_hash srcs q)) h = Some impl \<and>
         (\<exists>before. trace_of (handle_query env ?m protocol_hash srcs q) =
            before @ [IncrementNumConversations h, LoadProtocolDocument h,
              WriteRoutineForTools [] (load_protocol_document env h),
              AddRoutine h impl, ExecuteRoutine h q])) \<and>
      (write_routine_for_tools env [] (load_protocol_document env h) = Inl e \<longrightarrow>
         outcome_of (handle_query env ?m protocol_hash srcs q) = Inl e \<and>
         (\<exists>before. trace_of (handle_query env ?m protocol_hash srcs q) =
            before @ [IncrementNumConversations h, LoadProtocolDocument h,
              WriteRoutineForTools [] (load_protocol_document env h)]))"
  proof
    assume "IncrementNumConversations h \<in>
      set (trace_of (handle_query env ?m protocol_hash srcs q))"
    with nonneg show "protocol_hash = Some h \<and> \<not> has_implementation ?m h \<and>
      (write_routine_for_tools env [] (load_protocol_document env h) = Inr impl \<longrightarrow>
         outcome_of (handle_query env ?m protocol_hash srcs q) =
           Inr (case run_implementation env impl q of
                  Inr output \<Rightarrow> StatusMessage ''success'' output
                | Inl x \<Rightarrow> StatusMessage ''error'' ''Failed to execute routine.'') \<and>
         routines (memory_after (handle_query env ?m protocol_hash srcs q)) h = Some impl \<and>
         (\<exists>before. trace_of (handle_query env ?m protocol_hash srcs q) =
            before @ [IncrementNumConversations h, LoadProtocolDocument h,
              WriteRoutineForTools [] (load_protocol_document env h),
              AddRoutine h impl, ExecuteRoutine h q])) \<and>
      (write_routine_for_tools env [] (load_protocol_document env h) = Inl e \<longrightarrow>
         outcome_of (handle_query env ?m protocol_hash srcs q) = Inl e \<and>
         (\<exists>before. trace_of (handle_query env ?m protocol_hash srcs q) =
            before @ [IncrementNumConversations h, LoadProtocolDocument h,
              WriteRoutineForTools [] (load_protocol_document env h)]))"
      by (rule query_promoted)
  qed
  have c6: "ReplyToQuery a (Some c) \<notin> set (trace_of (handle_query env ?m protocol_hash srcs q))"
    by (rule query_trace_no_context_reply) (rule nonneg)
  from c1 c2 c3 c4 c5 c6 show ?thesis
    by (intro conjI)
qed

theorem promotion_on_first_query_witness:
  "PROTOCOL_INFOS (serve initial_memory []) ''P1'' = None \<and>
   \<not> has_implementation (serve initial_memory []) ''P1'' \<and>
   download_and_verify_protocol demo_collaborators ''P1'' ''S1'' = Some ''document'' \<and>
   write_routine_for_tools demo_collaborators [] (load_protocol_document demo_collaborators ''P1'') =
     Inr ''routine'' \<and>
   run_implementation demo_collaborators ''routine'' ''hi'' = Inr ''output'' \<and>
   IncrementNumConversations ''P1'' \<in>
     set (trace_of (handle_query demo_collaborators (serve initial_memory []) (Some ''P1'') [''S1''] ''hi'')) \<and>
   outcome_of (handle_query demo_collaborators (serve initial_memory []) (Some ''P1'') [''S1''] ''hi'') =
     Inr (StatusMessage ''success'' ''output'') \<and>
   routines (memory_after
     (handle_query demo_collaborators (serve initial_memory []) (Some ''P1'') [''S1''] ''hi'')) ''P1'' =
     Some ''routine'' \<and>
   (\<exists>before. trace_of
      (handle_query demo_collaborators (serve initial_memory []) (Some ''P1'') [''S1''] ''hi'') =
      before @ [IncrementNumConversations ''P1'', LoadProtocolDocument ''P1'',
        WriteRoutineForTools [] ''document'', AddRoutine ''P1'' ''routine'',
        ExecuteRoutine ''P1'' ''hi'']) \<and>
   ReplyToQuery ''hi'' (Some ''P1'') \<notin>
     set (trace_of (handle_query demo_collaborators (serve initial_memory []) (Some ''P1'') [''S1''] ''hi'')) \<and>
   serve initial_memory [(unsynthesizable_collaborators, Some ''P1'', [''S1''], ''hi'')] =
     once_registered_memory \<and>
   PROTOCOL_INFOS once_registered_memory ''P1'' =
     Some \<lparr>source = ''S1'', suitability = UNKNOWN, num_conversations = 1\<rparr> \<and>
   \<not> has_implementation once_registered_memory ''P1'' \<and>
   check_protocol_for_tools demo_collaborators (load_protocol_document demo_collaborators ''P1'') ''again'' \<and>
   run_implementation demo_collaborators ''routine'' ''again'' = Inr ''output'' \<and>
   outcome_of (handle_query demo_collaborators once_registered_memory (Some ''P1'') [] ''again'') =
     Inr (StatusMessage ''success'' ''output'') \<and>
   routines (memory_after
     (handle_query demo_collaborators once_registered_memory (Some ''P1'') [] ''again'')) ''P1'' =
     Some ''routine''"
proof -
  have unreg: "PROTOCOL_INFOS (serve initial_memory []) ''P1'' = None"
    by (simp add: initial_memory_def)
  have unc: "\<not> has_implementation (serve initial_memory []) ''P1''"
    by (simp add: has_implementation_def initial_memory_def)
  have none: "\<forall>x \<in> set []. download_and_verify_protocol demo_collaborators ''P1'' x = None"
    by simp
  have ok: "download_and_verify_protocol demo_collaborators ''P1'' ''S1'' = Some ''document''"
    and written: "write_routine_for_tools demo_collaborators []
      (load_protocol_document demo_collaborators ''P1'') = Inr ''routine''"
    and doc: "load_protocol_document demo_collaborators ''P1'' = ''document''"
    and ran: "run_implementation demo_collaborators ''routine'' ''hi'' = Inr ''output''"
    and ran': "run_implementation demo_collaborators ''routine'' ''again'' = Inr ''output''"
    and checked: "check_protocol_for_tools demo_collaborators
      (load_protocol_document demo_collaborators ''P1'') ''again''"
    by (simp_all add: demo_collaborators_def)
  have served: "serve initial_memory [(unsynthesizable_collaborators, Some ''P1'', [''S1''], ''hi'')] =
     once_registered_memory"
    by (simp add: eval_defs once_registered_memory_def)
  have reg: "PROTOCOL_INFOS once_registered_memory ''P1'' =
     Some \<lparr>source = ''S1'', suitability = UNKNOWN, num_conversations = 1\<rparr>"
    by (simp add: once_registered_memory_def)
  have unc': "\<not> has_implementation once_registered_memory ''P1''"
    by (simp add: has_implementation_def once_registered_memory_def)
  note a = promotion_on_first_query
    [where reqs = "[]" and h = "''P1''" and env = demo_collaborators and pre = "[]"
       and s = "''S1''" and doc = "''document''" and post = "[]" and q = "''hi''"
       and protocol_hash = "Some ''P1''" and srcs = "[''S1'']" and impl = "''routine''"
       and a = "''hi''" and c = "''P1''"]
  note b = promotion_on_first_query
    [where reqs = "[(unsynthesizable_collaborators, Some ''P1'', [''S1''], ''hi'')]"
       and h = "''P1''" and env = demo_collaborators and q = "''again''"
       and info = "\<lparr>source = ''S1'', suitability = UNKNOWN, num_conversations = 1\<rparr>"
       and protocol_hash = "Some ''P1''" and srcs = "[]" and impl = "''routine''",
     unfolded served]
  note a3 = a [THEN conjunct2, THEN conjunct2, THEN conjunct1]
  note a5 = a [THEN conjunct2, THEN conjunct2, THEN conjunct2, THEN conjunct2, THEN conjunct1]
  note a6 = a [THEN conjunct2, THEN conjunct2, THEN conjunct2, THEN conjunct2, THEN conjunct2]
  note b4 = b [THEN conjunct2, THEN conjunct2, THEN conjunct2, THEN conjunct1]
  note b5 = b [THEN conjunct2, THEN conjunct2, THEN conjunct2, THEN conjunct2, THEN conjunct1]
  from a3 unreg unc none ok
  have entered: "IncrementNumConversations ''P1'' \<in>
     set (trace_of (handle_query demo_collaborators (serve initial_memory []) (Some ''P1'') [''S1''] ''hi''))"
    by simp
  note p = a5 [THEN mp, OF entered, THEN conjunct2, THEN conjunct2, THEN conjunct1, THEN mp, OF written]
  from p [THEN conjunct1]
  have first: "outcome_of (handle_query demo_collaborators (serve initial_memory []) (Some ''P1'') [''S1''] ''hi'') =
       Inr (StatusMessage ''success'' ''output'')"
    by (simp add: ran)
  note kept = p [THEN conjunct2, THEN conjunct1]
  from p [THEN conjunct2, THEN conjunct2]
  have calls: "\<exists>before. trace_of
      (handle_query demo_collaborators (serve initial_memory []) (Some ''P1'') [''S1''] ''hi'') =
      before @ [IncrementNumConversations ''P1'', LoadProtocolDocument ''P1'',
        WriteRoutineForTools [] ''document'', AddRoutine ''P1'' ''routine'',
        ExecuteRoutine ''P1'' ''hi'']"
    by (simp only: doc)
  note quiet = a6
  from b4 reg unc' checked
  have entered': "IncrementNumConversations ''P1'' \<in>
     set (trace_of (handle_query demo_collaborators once_registered_memory (Some ''P1'') [] ''again''))"
    by simp
  note p' = b5 [THEN mp, OF entered', THEN conjunct2, THEN conjunct2, THEN conjunct1, THEN mp, OF written]
  from p' [THEN conjunct1]
  have second: "outcome_of (handle_query demo_collaborators once_registered_memory (Some ''P1'') [] ''again'') =
       Inr (StatusMessage ''success'' ''output'')"
    by (simp add: ran')
  note kept' = p' [THEN conjunct2, THEN conjunct1]
  from unreg unc ok written ran entered first kept calls quiet served reg unc' checked ran'
    second kept'
  show ?thesis by (intro conjI)
qed

section \<open>Gateway\<close>

lemma main_chat_unknown:
  "protocolHash data = Some ''chat'' \<Longrightarrow> ''chat'' \<notin> set (routines_body env) \<Longrightarrow>
   HASH_COUNTER ''chat'' = None \<Longrightarrow>
   main env HASH_COUNTER data = (Inl KeyError, HASH_COUNTER, [GetRoutines])"
  by (simp add: main_def)

lemma main_chat_never_counts:
  "protocolHash data = Some ''chat'' \<Longrightarrow> fst (snd (main env HASH_COUNTER data)) = HASH_COUNTER"
  by (simp add: main_def Let_def split: option.splits)

lemma main_two_requests:
  assumes "protocolHash data = Some h" "h \<noteq> ''chat''" "h \<notin> set (routines_body env)"
    "HASH_COUNTER h = None" "create_and_save_routine env h = None"
  shows "main env HASH_COUNTER data =
      (Inr (post_model_handler env data), HASH_COUNTER(h \<mapsto> 1), [GetRoutines, PostModelHandler data])"
    and "main env (HASH_COUNTER(h \<mapsto> 1)) data =
      (Inr (post_model_handler env data), HASH_COUNTER(h \<mapsto> 2),
       [GetRoutines, CreateAndSaveRoutine h, PostModelHandler data])"
  using assms by (simp_all add: main_def TRIGGER_NUM_CALLS_def)

text \<open>
  C8. A request with the hash \<open>chat\<close>, unknown to the routine manager, on
  the counter table of a fresh process: the increment is skipped for \<open>chat\<close>,
  so the subscript \<open>HASH_COUNTER[protocol_hash]\<close> raises \<open>KeyError\<close>; the
  request is not forwarded to the model handler.
\<close>

theorem main_chat_request_raises:
  "main demo_services Map.empty chat_request = (Inl KeyError, Map.empty, [GetRoutines])"
  by (simp add: main_def demo_services_def chat_request_def)




end
